theory Spec2Isabelle
  imports Main
begin

section \<open>Python values\<close>

text \<open>
  The configuration dictionaries of \<^verbatim>\<open>imapautofiler/actions.py\<close> map string keys to
  scalar values. The scalars modelled are \<^verbatim>\<open>None\<close>, booleans, integers and strings.
\<close>

datatype pyval = VNone | VBool bool | VInt int | VStr string

type_synonym pydict = "string \<rightharpoonup> pyval"

text \<open>\<^verbatim>\<open>d.get(k)\<close>: the value under the key, \<^verbatim>\<open>None\<close> when the key is missing.\<close>

definition dict_get :: "pydict \<Rightarrow> string \<Rightarrow> pyval" where
  "dict_get d k = (case d k of None \<Rightarrow> VNone | Some v \<Rightarrow> v)"

text \<open>\<^verbatim>\<open>d.get(k, default)\<close>.\<close>

definition dict_get_default :: "pydict \<Rightarrow> string \<Rightarrow> pyval \<Rightarrow> pyval" where
  "dict_get_default d k dflt = (case d k of None \<Rightarrow> dflt | Some v \<Rightarrow> v)"

text \<open>Truth value testing, as \<^verbatim>\<open>not x\<close> and \<^verbatim>\<open>if x\<close> apply it.\<close>

fun truthy :: "pyval \<Rightarrow> bool" where
  "truthy VNone = False"
| "truthy (VBool b) = b"
| "truthy (VInt i) = (i \<noteq> 0)"
| "truthy (VStr s) = (s \<noteq> [])"

text \<open>Decimal digits of a natural number, most significant first.\<close>

fun digits :: "nat \<Rightarrow> string" where
  "digits n =
     (if n < 10 then [char_of (48 + n)]
      else digits (n div 10) @ [char_of (48 + n mod 10)])"

declare digits.simps [simp del]

text \<open>\<^verbatim>\<open>str(x)\<close>, which \<^verbatim>\<open>'{}'.format(x)\<close> inserts for these values.\<close>

fun py_str :: "pyval \<Rightarrow> string" where
  "py_str VNone = ''None''"
| "py_str (VBool b) = (if b then ''True'' else ''False'')"
| "py_str (VInt i) = (if i < 0 then CHR ''-'' # digits (nat (- i)) else digits (nat i))"
| "py_str (VStr s) = s"

text \<open>
  Objects that appear as arguments of log records and exception messages: a scalar, a
  dictionary, a tuple of scalars, and a compiled pattern object (shown by its pattern
  text).
\<close>

datatype pyobj = Val pyval | Dict pydict | Tuple "pyval list" | Compiled string

section \<open>Exceptions\<close>

text \<open>
  An exception is its class, the message template of the \<^verbatim>\<open>raise\<close> statement and the
  objects formatted into the template.
\<close>

datatype exc_type = ValueError | TypeError | IndexError | ReError

type_synonym error = "exc_type \<times> string \<times> pyobj list"

text \<open>
  The class of an exception, which is what an \<^verbatim>\<open>except\<close> clause selects on, and its
  message template.
\<close>

definition exc_class :: "error \<Rightarrow> exc_type" where
  "exc_class e = fst e"

definition exc_message :: "error \<Rightarrow> string" where
  "exc_message e = fst (snd e)"

text \<open>
  Indexing a tuple with a configuration value: booleans are integers, a negative index
  counts from the end, an index outside the tuple raises \<^verbatim>\<open>IndexError\<close>, and a value
  that is not an integer raises \<^verbatim>\<open>TypeError\<close>.
\<close>

definition tuple_index :: "pyval list \<Rightarrow> int \<Rightarrow> error + pyval" where
  "tuple_index xs i =
     (if 0 \<le> i \<and> i < int (length xs) then Inr (xs ! nat i)
      else if i < 0 \<and> - int (length xs) \<le> i then Inr (xs ! nat (int (length xs) + i))
      else Inl (IndexError, ''tuple index out of range'', []))"

fun tuple_getitem :: "pyval list \<Rightarrow> pyval \<Rightarrow> error + pyval" where
  "tuple_getitem xs (VInt i) = tuple_index xs i"
| "tuple_getitem xs (VBool b) = tuple_index xs (if b then 1 else 0)"
| "tuple_getitem xs v =
     Inl (TypeError, ''tuple indices must be integers or slices, not {}'', [Val v])"

section \<open>The regular expression module\<close>

text \<open>
  The code uses these operations of Python's \<^verbatim>\<open>re\<close> module, which is not part of the
  repository: \<^verbatim>\<open>re.compile\<close>, the attributes \<^verbatim>\<open>groups\<close> and \<^verbatim>\<open>pattern\<close> of a compiled
  pattern, \<^verbatim>\<open>Pattern.search\<close>, and \<^verbatim>\<open>Match.groups\<close>. The module is a parameter of the
  model: \<open>'r\<close> is the type of compiled patterns and \<open>'m\<close> the type of match objects.
  \<open>m_group m i\<close> is \<^verbatim>\<open>m.group(i)\<close> for \<open>i \<ge> 1\<close>, \<open>None\<close> for a group that took no part
  in the match.
\<close>

record ('r, 'm) re_module =
  re_compile :: "string \<Rightarrow> error + 'r"
  re_groups :: "'r \<Rightarrow> nat"
  re_pattern :: "'r \<Rightarrow> string"
  re_search :: "'r \<Rightarrow> string \<Rightarrow> 'm option"
  m_group :: "'m \<Rightarrow> nat \<Rightarrow> string option"

text \<open>\<^verbatim>\<open>re.compile(v)\<close> on a configuration value: only a string is a pattern.\<close>

definition compile_value :: "('r, 'm) re_module \<Rightarrow> pyval \<Rightarrow> error + 'r" where
  "compile_value re v =
     (case v of
        VStr p \<Rightarrow> re_compile re p
      | _ \<Rightarrow> Inl (TypeError, ''first argument must be string or compiled pattern'', []))"

text \<open>
  \<^verbatim>\<open>match.groups()\<close>: the tuple of all subgroups of the match, from 1 up to the number
  of groups of the pattern; a group that took no part is \<^verbatim>\<open>None\<close>.
\<close>

definition match_groups :: "('r, 'm) re_module \<Rightarrow> 'r \<Rightarrow> 'm \<Rightarrow> pyval list" where
  "match_groups re r m =
     map (\<lambda>i. case m_group re m i of None \<Rightarrow> VNone | Some s \<Rightarrow> VStr s)
       [1 ..< Suc (re_groups re r)]"

subsection \<open>A backtracking matcher for a fragment of the pattern syntax\<close>

text \<open>
  An instance of the module for the patterns used in the repository's documentation
  and tests: literal characters, \<^verbatim>\<open>.\<close>, escaped punctuation, character sets of
  literal characters (\<^verbatim>\<open>[abc]\<close>, \<^verbatim>\<open>[^abc]\<close>), capturing groups, and the greedy
  quantifiers \<^verbatim>\<open>*\<close>, \<^verbatim>\<open>+\<close>, \<^verbatim>\<open>?\<close> applied to an item that cannot match the empty
  string. Every other pattern is rejected by \<open>py_compile\<close>. The theorems about
  the actions hold for every module; this instance serves where a statement is about a
  particular pattern and header.
\<close>

datatype rx =
    Eps
  | Lit char
  | Dot
  | CSet bool "char list"
  | Seq rx rx
  | Opt rx
  | Star rx
  | Group nat rx

text \<open>Captured groups, the latest capture of a group first.\<close>

type_synonym caps = "(nat \<times> string) list"

text \<open>
  \<open>ms r (s, cs)\<close> lists every way \<open>r\<close> can match a prefix of \<open>s\<close>, in the order a
  backtracking matcher tries them (greedy alternatives first): each entry is the rest of
  the subject and the captures after the match.
\<close>

fun ms :: "rx \<Rightarrow> string \<times> caps \<Rightarrow> (string \<times> caps) list" where
  "ms Eps st = [st]"
| "ms (Lit c) (s, cs) = (case s of [] \<Rightarrow> [] | x # t \<Rightarrow> if x = c then [(t, cs)] else [])"
| "ms Dot (s, cs) =
     (case s of [] \<Rightarrow> [] | x # t \<Rightarrow> if x \<noteq> CHR 0x0A then [(t, cs)] else [])"
| "ms (CSet neg members) (s, cs) =
     (case s of [] \<Rightarrow> []
      | x # t \<Rightarrow> if (x \<in> set members) \<noteq> neg then [(t, cs)] else [])"
| "ms (Seq a b) st = concat (map (ms b) (ms a st))"
| "ms (Opt r) st = ms r st @ [st]"
| "ms (Star r) st =
     concat (map (\<lambda>st'. if length (fst st') < length (fst st) then ms (Star r) st' else [])
               (ms r st)) @ [st]"
| "ms (Group n r) (s, cs) =
     map (\<lambda>(t, cs'). (t, (n, take (length s - length t) s) # cs')) (ms r (s, cs))"

text \<open>\<^verbatim>\<open>search\<close>: the first match, scanning the start positions from left to right.\<close>

fun search_rx :: "rx \<Rightarrow> string \<Rightarrow> caps option" where
  "search_rx r s =
     (case ms r (s, []) of
        (t, cs) # _ \<Rightarrow> Some cs
      | [] \<Rightarrow> (case s of [] \<Rightarrow> None | _ # t \<Rightarrow> search_rx r t))"

declare search_rx.simps [simp del]

text \<open>An item that can match the empty string.\<close>

fun nullable :: "rx \<Rightarrow> bool" where
  "nullable Eps = True"
| "nullable (Lit c) = False"
| "nullable Dot = False"
| "nullable (CSet neg members) = False"
| "nullable (Seq a b) = (nullable a \<and> nullable b)"
| "nullable (Opt r) = True"
| "nullable (Star r) = True"
| "nullable (Group n r) = nullable r"

text \<open>
  The parser reads the pattern from left to right. A frame holds the sequence under
  construction inside one pair of parentheses (frame 0 is the whole pattern): the items
  before the last one, and the last item with a flag telling whether a quantifier has
  been applied to it already.
\<close>

record frame =
  number :: nat
  prefix :: rx
  last_item :: "(rx \<times> bool) option"

datatype pmode = Normal | Escaped | Set_open | In_set bool "char list"

record pstate =
  mode :: pmode
  stack :: "frame list"
  ngroups :: nat

definition close_frame :: "frame \<Rightarrow> rx" where
  "close_frame f = (case last_item f of None \<Rightarrow> prefix f | Some (x, q) \<Rightarrow> Seq (prefix f) x)"

definition push_item :: "rx \<Rightarrow> frame \<Rightarrow> frame" where
  "push_item x f = f\<lparr>prefix := close_frame f, last_item := Some (x, False)\<rparr>"

definition add_item :: "rx \<Rightarrow> pstate \<Rightarrow> pstate option" where
  "add_item x st =
     (case stack st of
        [] \<Rightarrow> None
      | f # fs \<Rightarrow> Some (st\<lparr>mode := Normal, stack := push_item x f # fs\<rparr>))"

text \<open>A quantifier applies to the last item of the innermost frame.\<close>

definition quantify :: "(rx \<Rightarrow> rx) \<Rightarrow> pstate \<Rightarrow> pstate option" where
  "quantify q st =
     (case stack st of
        [] \<Rightarrow> None
      | f # fs \<Rightarrow>
          (case last_item f of
             None \<Rightarrow> None
           | Some (x, quantified) \<Rightarrow>
               if quantified \<or> nullable x then None
               else Some (st\<lparr>stack := f\<lparr>last_item := Some (q x, True)\<rparr> # fs\<rparr>)))"

definition escapable :: "char \<Rightarrow> bool" where
  "escapable c = (c \<in> set ''.*+?()[]{}|^$<>:-'' \<or> c = CHR 0x5C)"

definition parse_normal :: "char \<Rightarrow> pstate \<Rightarrow> pstate option" where
  "parse_normal c st =
     (if c = CHR 0x5C then Some (st\<lparr>mode := Escaped\<rparr>)
      else if c = CHR ''['' then Some (st\<lparr>mode := Set_open\<rparr>)
      else if c = CHR ''('' then
        Some (st\<lparr>stack := \<lparr>number = Suc (ngroups st), prefix = Eps, last_item = None\<rparr> # stack st,
                 ngroups := Suc (ngroups st)\<rparr>)
      else if c = CHR '')'' then
        (case stack st of
           f # g # fs \<Rightarrow>
             Some (st\<lparr>stack := push_item (Group (number f) (close_frame f)) g # fs\<rparr>)
         | _ \<Rightarrow> None)
      else if c = CHR ''*'' then quantify Star st
      else if c = CHR ''+'' then quantify (\<lambda>x. Seq x (Star x)) st
      else if c = CHR ''?'' then quantify Opt st
      else if c \<in> set ''|{}^$'' then None
      else if c = CHR ''.'' then add_item Dot st
      else add_item (Lit c) st)"

definition parse_in_set :: "bool \<Rightarrow> char list \<Rightarrow> char \<Rightarrow> pstate \<Rightarrow> pstate option" where
  "parse_in_set neg members c st =
     (if c = CHR '']'' then
        (if members = [] then None else add_item (CSet neg (rev members)) st)
      else if c = CHR 0x5C \<or> c = CHR ''['' \<or> c = CHR ''-'' then None
      else Some (st\<lparr>mode := In_set neg (c # members)\<rparr>))"

definition parse_char :: "char \<Rightarrow> pstate \<Rightarrow> pstate option" where
  "parse_char c st =
     (case mode st of
        Normal \<Rightarrow> parse_normal c st
      | Escaped \<Rightarrow> if escapable c then add_item (Lit c) st else None
      | Set_open \<Rightarrow>
          if c = CHR ''^'' then Some (st\<lparr>mode := In_set True []\<rparr>)
          else parse_in_set False [] c st
      | In_set neg members \<Rightarrow> parse_in_set neg members c st)"

fun parse_chars :: "string \<Rightarrow> pstate \<Rightarrow> pstate option" where
  "parse_chars [] st = Some st"
| "parse_chars (c # cs) st =
     (case parse_char c st of None \<Rightarrow> None | Some st' \<Rightarrow> parse_chars cs st')"

text \<open>A compiled pattern: the parsed expression, its number of groups, its text.\<close>

record compiled =
  c_rx :: rx
  c_groups :: nat
  c_pattern :: string

definition py_compile :: "string \<Rightarrow> error + compiled" where
  "py_compile p =
     (case parse_chars p
             \<lparr>mode = Normal, stack = [\<lparr>number = 0, prefix = Eps, last_item = None\<rparr>],
              ngroups = 0\<rparr> of
        None \<Rightarrow> Inl (ReError, ''pattern outside the modelled fragment: {!r}'', [Val (VStr p)])
      | Some st \<Rightarrow>
          (case (mode st, stack st) of
             (Normal, [f]) \<Rightarrow>
               Inr \<lparr>c_rx = close_frame f, c_groups = ngroups st, c_pattern = p\<rparr>
           | _ \<Rightarrow>
               Inl (ReError, ''pattern outside the modelled fragment: {!r}'',
                    [Val (VStr p)])))"

definition py_re :: "(compiled, caps) re_module" where
  "py_re =
     \<lparr>re_compile = py_compile,
      re_groups = c_groups,
      re_pattern = c_pattern,
      re_search = (\<lambda>r s. search_rx (c_rx r) s),
      m_group = (\<lambda>m i. map_of m i)\<rparr>"

section \<open>Messages, the connection and the log\<close>

text \<open>
  A message is used through header lookup only: \<open>msg name\<close> is the value of the header,
  \<open>None\<close> when the message has no such header. The code looks up the names
  \<^verbatim>\<open>list-id\<close> and \<^verbatim>\<open>subject\<close> only; that the lookup of the \<^verbatim>\<open>email\<close> library ignores
  the case of header names is part of what \<open>msg\<close> answers.
\<close>

type_synonym message = "string \<rightharpoonup> string"

text \<open>\<^verbatim>\<open>message.get(name, failobj)\<close> with a string for \<^verbatim>\<open>failobj\<close>.\<close>

definition msg_get :: "message \<Rightarrow> string \<Rightarrow> string \<Rightarrow> string" where
  "msg_get msg name failobj = (case msg name of None \<Rightarrow> failobj | Some v \<Rightarrow> v)"

text \<open>\<^verbatim>\<open>message[name]\<close>: \<^verbatim>\<open>None\<close> for a missing header, never an exception.\<close>

definition msg_getitem :: "message \<Rightarrow> string \<Rightarrow> pyval" where
  "msg_getitem msg name = (case msg name of None \<Rightarrow> VNone | Some v \<Rightarrow> VStr v)"

text \<open>
  The calls an action makes on the connection, with their arguments in the order of the
  source: \<^verbatim>\<open>move_message(src_mailbox, dest_mailbox, message_id, message)\<close> and
  \<^verbatim>\<open>delete_message(mailbox_name, message_id, message)\<close>. The destination of a move is
  whatever value the action holds, possibly \<^verbatim>\<open>None\<close>.
\<close>

datatype conn_call =
    Move_message string pyval string message
  | Delete_message string string message

text \<open>The connection answers a call by returning (\<open>None\<close>) or by raising an exception.\<close>

type_synonym connection = "conn_call \<Rightarrow> error option"

datatype level = DEBUG | INFO

record log_record =
  logger :: string
  level :: level
  fmt :: string
  args :: "pyobj list"

text \<open>What the actions change: the calls received by the connection, and the log.\<close>

record world =
  calls :: "conn_call list"
  records :: "log_record list"

definition log_to :: "string \<Rightarrow> level \<Rightarrow> string \<Rightarrow> pyobj list \<Rightarrow> world \<Rightarrow> world" where
  "log_to lg lv f as w =
     w\<lparr>records := records w @ [\<lparr>logger = lg, level = lv, fmt = f, args = as\<rparr>]\<rparr>"

definition call :: "connection \<Rightarrow> conn_call \<Rightarrow> world \<Rightarrow> (error + unit) \<times> world" where
  "call conn c w =
     ((case conn c of None \<Rightarrow> Inr () | Some e \<Rightarrow> Inl e), w\<lparr>calls := calls w @ [c]\<rparr>)"

section \<open>The actions\<close>

text \<open>
  An action object with its attributes: \<^verbatim>\<open>_data\<close> and \<^verbatim>\<open>_cfg\<close> for every class,
  \<^verbatim>\<open>_dest_mailbox\<close> for \<^verbatim>\<open>Move\<close> and \<^verbatim>\<open>Trash\<close>, and \<^verbatim>\<open>_dest_mailbox_base\<close>,
  \<^verbatim>\<open>_dest_mailbox_regex\<close>, \<^verbatim>\<open>_dest_mailbox_regex_group\<close> for \<^verbatim>\<open>SortMailingList\<close>.
\<close>

datatype 'r action =
    Move pydict pydict pyval
  | SortMailingList pydict pydict pyval 'r pyval
  | Trash pydict pydict pyval
  | Delete pydict pydict

text \<open>
  \<^verbatim>\<open>Action.__init__\<close>. The logger \<^verbatim>\<open>self._log\<close> is a class attribute that every subclass
  overrides, so it is an argument here.
\<close>

definition Action_init :: "string \<Rightarrow> pydict \<Rightarrow> pydict \<Rightarrow> world \<Rightarrow> world" where
  "Action_init lg action_data cfg w = log_to lg DEBUG ''new: %r'' [Dict action_data] w"

text \<open>\<^verbatim>\<open>Move.__init__\<close>: returns the value of \<^verbatim>\<open>self._dest_mailbox\<close>.\<close>

definition Move_init_dest :: "string \<Rightarrow> pydict \<Rightarrow> pydict \<Rightarrow> world \<Rightarrow> pyval \<times> world" where
  "Move_init_dest lg action_data cfg w =
     (let w1 = Action_init lg action_data cfg w
      in (dict_get action_data ''dest-mailbox'', w1))"

definition Move_init :: "pydict \<Rightarrow> pydict \<Rightarrow> world \<Rightarrow> (error + 'r action) \<times> world" where
  "Move_init action_data cfg w =
     (case Move_init_dest ''Move'' action_data cfg w of
        (dest_mailbox, w1) \<Rightarrow> (Inr (Move action_data cfg dest_mailbox), w1))"

definition default_regex :: string where
  "default_regex = ''<?([^.]+)'' @ CHR 0x5C # ''..*>?''"

definition SortMailingList_init ::
  "('r, 'm) re_module \<Rightarrow> pydict \<Rightarrow> pydict \<Rightarrow> world \<Rightarrow> (error + 'r action) \<times> world" where
  "SortMailingList_init re action_data cfg w =
     (let w1 = Action_init ''SortMailingList'' action_data cfg w;
          dest_mailbox_base = dict_get action_data ''dest-mailbox-base''
      in if \<not> truthy dest_mailbox_base then
           (Inl (ValueError, ''No dest-mailbox-base given for action {}'', [Dict action_data]),
            w1)
         else
           (case compile_value re
                   (dict_get_default action_data ''dest-mailbox-regex'' (VStr default_regex)) of
              Inl e \<Rightarrow> (Inl e, w1)
            | Inr dest_mailbox_regex \<Rightarrow>
                if re_groups re dest_mailbox_regex = 0 then
                  (Inl (ValueError,
                        ''Regex {!r} has no group to select the mailbox name portion.'',
                        [Val (VStr (re_pattern re dest_mailbox_regex))]), w1)
                else if re_groups re dest_mailbox_regex > 1
                        \<and> action_data ''dest-mailbox-regex-group'' = None then
                  (Inl (ValueError,
                        ''Regex {!r} has multiple groups and the action data does not specify the dest-mailbox-regex-group to use.'',
                        [Val (VStr (re_pattern re dest_mailbox_regex))]), w1)
                else
                  (Inr (SortMailingList action_data cfg dest_mailbox_base dest_mailbox_regex
                          (dict_get_default action_data ''dest-mailbox-regex-group'' (VInt 0))),
                   w1)))"

definition Trash_init :: "pydict \<Rightarrow> pydict \<Rightarrow> world \<Rightarrow> (error + 'r action) \<times> world" where
  \<open>Trash_init action_data cfg w =
     (case Move_init_dest ''Trash'' action_data cfg w of
        (dest_mailbox, w1) \<Rightarrow>
          (let dest_mailbox =
                 (if dest_mailbox = VNone then dict_get cfg ''trash-mailbox'' else dest_mailbox)
           in if dest_mailbox = VNone then
                (Inl (ValueError, ''no "trash-mailbox" set in config'', []), w1)
              else (Inr (Trash action_data cfg dest_mailbox), w1)))\<close>

definition Delete_init :: "pydict \<Rightarrow> pydict \<Rightarrow> world \<Rightarrow> (error + 'r action) \<times> world" where
  "Delete_init action_data cfg w =
     (Inr (Delete action_data cfg), Action_init ''Delete'' action_data cfg w)"

definition factory ::
  "('r, 'm) re_module \<Rightarrow> pydict \<Rightarrow> pydict \<Rightarrow> world \<Rightarrow> (error + 'r action) \<times> world" where
  "factory re action_data cfg w =
     (let name = dict_get action_data ''name''
      in if name = VStr ''move'' then Move_init action_data cfg w
         else if name = VStr ''sort-mailing-list'' then SortMailingList_init re action_data cfg w
         else if name = VStr ''delete'' then Delete_init action_data cfg w
         else if name = VStr ''trash'' then Trash_init action_data cfg w
         else (Inl (ValueError, ''unrecognized rule action {!r}'', [Dict action_data]), w))"

text \<open>
  \<^verbatim>\<open>Move.invoke\<close>, which \<^verbatim>\<open>Trash\<close> inherits; \<open>lg\<close> is the logger of the object's class.
\<close>

definition Move_invoke ::
  "string \<Rightarrow> connection \<Rightarrow> pyval \<Rightarrow> string \<Rightarrow> string \<Rightarrow> message \<Rightarrow> world
     \<Rightarrow> (error + unit) \<times> world" where
  "Move_invoke lg conn dest_mailbox src_mailbox message_id message w =
     (let w1 = log_to lg INFO ''%s (%s) to %s''
                 [Val (VStr message_id), Val (msg_getitem message ''subject''),
                  Val dest_mailbox] w
      in call conn (Move_message src_mailbox dest_mailbox message_id message) w1)"

text \<open>\<^verbatim>\<open>SortMailingList._get_dest_mailbox\<close>, on the attributes of the object.\<close>

definition get_dest_mailbox ::
  "('r, 'm) re_module \<Rightarrow> pyval \<Rightarrow> 'r \<Rightarrow> pyval \<Rightarrow> string \<Rightarrow> message \<Rightarrow> world
     \<Rightarrow> (error + string) \<times> world" where
  "get_dest_mailbox re dest_mailbox_base dest_mailbox_regex dest_mailbox_regex_group
       message_id message w =
     (let list_id = msg_get message ''list-id'' []
      in case re_search re dest_mailbox_regex list_id of
           None \<Rightarrow>
             (Inl (ValueError,
                   ''Could not determine destination mailbox from list-id {!r} with regex {!r}'',
                   [Val (VStr list_id), Compiled (re_pattern re dest_mailbox_regex)]), w)
         | Some m \<Rightarrow>
             (let groups = match_groups re dest_mailbox_regex m;
                  w1 = log_to ''SortMailingList'' DEBUG
                         ''%s list-id %r matched regex %r with %r''
                         [Val (VStr message_id), Val (VStr list_id),
                          Val (VStr (re_pattern re dest_mailbox_regex)), Tuple groups] w;
                  w2 = log_to ''SortMailingList'' DEBUG ''%s using group %s''
                         [Val (VStr message_id), Val dest_mailbox_regex_group] w1
              in case tuple_getitem groups dest_mailbox_regex_group of
                   Inl e \<Rightarrow> (Inl e, w2)
                 | Inr v \<Rightarrow> (Inr (py_str dest_mailbox_base @ ''.'' @ py_str v), w2)))"

definition SortMailingList_invoke ::
  "('r, 'm) re_module \<Rightarrow> connection \<Rightarrow> pyval \<Rightarrow> 'r \<Rightarrow> pyval \<Rightarrow> string \<Rightarrow> string \<Rightarrow> message
     \<Rightarrow> world \<Rightarrow> (error + unit) \<times> world" where
  "SortMailingList_invoke re conn base regex grp src_mailbox message_id message w =
     (case get_dest_mailbox re base regex grp message_id message w of
        (Inl e, w1) \<Rightarrow> (Inl e, w1)
      | (Inr dest_mailbox, w1) \<Rightarrow>
          (let w2 = log_to ''SortMailingList'' INFO ''%s (%s) to %s''
                      [Val (VStr message_id), Val (msg_getitem message ''subject''),
                       Val (VStr dest_mailbox)] w1
           in call conn (Move_message src_mailbox (VStr dest_mailbox) message_id message) w2))"

definition Delete_invoke ::
  "connection \<Rightarrow> string \<Rightarrow> string \<Rightarrow> message \<Rightarrow> world \<Rightarrow> (error + unit) \<times> world" where
  "Delete_invoke conn mailbox_name message_id message w =
     (let w1 = log_to ''Delete'' INFO ''%s (%s)''
                 [Val (VStr message_id), Val (msg_getitem message ''subject'')] w
      in call conn (Delete_message mailbox_name message_id message) w1)"

text \<open>\<^verbatim>\<open>action.invoke(conn, mailbox_name, message_id, message)\<close>, by the object's class.\<close>

fun invoke ::
  "('r, 'm) re_module \<Rightarrow> connection \<Rightarrow> 'r action \<Rightarrow> string \<Rightarrow> string \<Rightarrow> message \<Rightarrow> world
     \<Rightarrow> (error + unit) \<times> world" where
  "invoke re conn (Move d c dest_mailbox) src message_id message w =
     Move_invoke ''Move'' conn dest_mailbox src message_id message w"
| "invoke re conn (SortMailingList d c base regex grp) src message_id message w =
     SortMailingList_invoke re conn base regex grp src message_id message w"
| "invoke re conn (Trash d c dest_mailbox) src message_id message w =
     Move_invoke ''Trash'' conn dest_mailbox src message_id message w"
| "invoke re conn (Delete d c) src message_id message w =
     Delete_invoke conn src message_id message w"

section \<open>Evaluation of the matcher on the patterns of the documentation and tests\<close>

lemmas parse_defs = py_compile_def parse_char_def parse_normal_def parse_in_set_def
  add_item_def quantify_def push_item_def close_frame_def escapable_def

lemma py_compile_default:
  "py_compile default_regex =
     Inr \<lparr>c_rx = Seq (Seq (Seq (Seq (Seq Eps (Opt (Lit CHR ''<'')))
                     (Group 1 (Seq Eps (Seq (CSet True ''.'') (Star (CSet True ''.''))))))
                     (Lit CHR ''.'')) (Star Dot)) (Opt (Lit CHR ''>'')),
          c_groups = 1, c_pattern = default_regex\<rparr>"
  by (simp add: default_regex_def parse_defs)

lemma py_compile_angle:
  "py_compile ''<(.*)>'' =
     Inr \<lparr>c_rx = Seq (Seq (Seq Eps (Lit CHR ''<'')) (Group 1 (Seq Eps (Star Dot))))
                   (Lit CHR ''>''),
          c_groups = 1, c_pattern = ''<(.*)>''\<rparr>"
  by (simp add: parse_defs)

lemma py_compile_no_group:
  "py_compile '':.*:'' =
     Inr \<lparr>c_rx = Seq (Seq (Seq Eps (Lit CHR '':'')) (Star Dot)) (Lit CHR '':''),
          c_groups = 0, c_pattern = '':.*:''\<rparr>"
  by (simp add: parse_defs)

lemma py_compile_two_groups:
  "py_compile '':(.*):(.*):'' =
     Inr \<lparr>c_rx = Seq (Seq (Seq (Seq (Seq Eps (Lit CHR '':'')) (Group 1 (Seq Eps (Star Dot))))
                     (Lit CHR '':'')) (Group 2 (Seq Eps (Star Dot)))) (Lit CHR '':''),
          c_groups = 2, c_pattern = '':(.*):(.*):''\<rparr>"
  by (simp add: parse_defs)

lemma search_default_sphinx:
  "search_rx (Seq (Seq (Seq (Seq (Seq Eps (Opt (Lit CHR ''<'')))
                     (Group (Suc 0) (Seq Eps (Seq (CSet True ''.'') (Star (CSet True ''.''))))))
                     (Lit CHR ''.'')) (Star Dot)) (Opt (Lit CHR ''>'')))
     ''<sphinx-dev.googlegroups.com>'' = Some [(Suc 0, ''sphinx-dev'')]"
  by code_simp

lemma search_default_empty:
  "search_rx (Seq (Seq (Seq (Seq (Seq Eps (Opt (Lit CHR ''<'')))
                     (Group (Suc 0) (Seq Eps (Seq (CSet True ''.'') (Star (CSet True ''.''))))))
                     (Lit CHR ''.'')) (Star Dot)) (Opt (Lit CHR ''>'')))
     [] = None"
  by code_simp

lemma search_angle_sphinx:
  "search_rx (Seq (Seq (Seq Eps (Lit CHR ''<'')) (Group (Suc 0) (Seq Eps (Star Dot)))) (Lit CHR ''>''))
     ''<sphinx-dev.googlegroups.com>'' = Some [(Suc 0, ''sphinx-dev.googlegroups.com'')]"
  by code_simp

lemma search_two_groups:
  "search_rx (Seq (Seq (Seq (Seq (Seq Eps (Lit CHR '':'')) (Group (Suc 0) (Seq Eps (Star Dot))))
                     (Lit CHR '':'')) (Group 2 (Seq Eps (Star Dot)))) (Lit CHR '':''))
     '':a:b:'' = Some [(2, ''b''), (Suc 0, ''a'')]"
  by code_simp

lemma py_re_sel:
  "re_compile py_re = py_compile"
  "re_groups py_re = c_groups"
  "re_pattern py_re = c_pattern"
  "re_search py_re r s = search_rx (c_rx r) s"
  "m_group py_re m i = map_of m i"
  by (simp_all add: py_re_def)

lemmas py_re_eval = py_re_sel compile_value_def dict_get_def dict_get_default_def
  msg_get_def py_compile_default py_compile_angle py_compile_no_group py_compile_two_groups
  search_default_sphinx search_default_empty search_angle_sphinx search_two_groups

section \<open>Construction\<close>

lemmas init_defs = SortMailingList_init_def Trash_init_def Move_init_def Delete_init_def
  Move_init_dest_def Action_init_def log_to_def Let_def

lemma match_groups_nth:
  "k < re_groups re r \<Longrightarrow>
   match_groups re r m ! k = (case m_group re m (Suc k) of None \<Rightarrow> VNone | Some s \<Rightarrow> VStr s)"
  by (simp add: match_groups_def nth_append del: upt_Suc)

lemma length_match_groups: "length (match_groups re r m) = re_groups re r"
  by (simp add: match_groups_def)

text \<open>
  Claim C10. \<^verbatim>\<open>SortMailingList\<close> rejects every falsy \<^verbatim>\<open>dest-mailbox-base\<close> the same
  way: whenever the value is absent or empty (any value that tests false), construction
  fails with the missing-base-mailbox error. In particular an empty string is rejected
  like a missing key.
\<close>

theorem SortMailingList_init_falsy_base:
  "(\<not> truthy (dict_get action_data ''dest-mailbox-base'') \<longrightarrow>
      fst (SortMailingList_init re action_data cfg w) =
        Inl (ValueError, ''No dest-mailbox-base given for action {}'', [Dict action_data]))
   \<and> (action_data ''dest-mailbox-base'' = None \<or>
       action_data ''dest-mailbox-base'' = Some (VStr []) \<longrightarrow>
      fst (SortMailingList_init re action_data cfg w) =
        Inl (ValueError, ''No dest-mailbox-base given for action {}'', [Dict action_data]))"
  by (auto simp: init_defs dict_get_def)

theorem SortMailingList_init_falsy_base_witness:
  "fst (SortMailingList_init py_re [''dest-mailbox-base'' \<mapsto> VStr []] Map.empty
          \<lparr>calls = [], records = []\<rparr>) =
     Inl (ValueError, ''No dest-mailbox-base given for action {}'',
          [Dict [''dest-mailbox-base'' \<mapsto> VStr []]])
   \<and> fst (SortMailingList_init py_re [''name'' \<mapsto> VStr ''sort-mailing-list''] Map.empty
          \<lparr>calls = [], records = []\<rparr>) =
     Inl (ValueError, ''No dest-mailbox-base given for action {}'',
          [Dict [''name'' \<mapsto> VStr ''sort-mailing-list'']])"
  using SortMailingList_init_falsy_base
          [where action_data = "[''dest-mailbox-base'' \<mapsto> VStr []]" and re = py_re
             and cfg = Map.empty and w = "\<lparr>calls = [], records = []\<rparr>"]
        SortMailingList_init_falsy_base
          [where action_data = "[''name'' \<mapsto> VStr ''sort-mailing-list'']" and re = py_re
             and cfg = Map.empty and w = "\<lparr>calls = [], records = []\<rparr>"]
  by (simp add: dict_get_def)

text \<open>
  Claim C2. The constructor of \<^verbatim>\<open>SortMailingList\<close> validates in this order: a missing
  \<^verbatim>\<open>dest-mailbox-base\<close> fails first, whatever the pattern is; otherwise a pattern
  (supplied or default) with no capturing group fails; otherwise a pattern with more than
  one group and no \<^verbatim>\<open>dest-mailbox-regex-group\<close> in the configuration fails; a pattern with
  exactly one group gives an object whose group index is 0 when the key is missing and the
  supplied value when it is present. All of this happens in the constructor, which makes
  no call on the connection.
\<close>

theorem SortMailingList_init_validation:
  "(action_data ''dest-mailbox-base'' = None \<longrightarrow>
      fst (SortMailingList_init re action_data cfg w) =
        Inl (ValueError, ''No dest-mailbox-base given for action {}'', [Dict action_data]))
   \<and> (truthy (dict_get action_data ''dest-mailbox-base'')
        \<and> compile_value re
              (dict_get_default action_data ''dest-mailbox-regex'' (VStr default_regex))
            = Inr r \<longrightarrow>
        (re_groups re r = 0 \<longrightarrow>
           fst (SortMailingList_init re action_data cfg w) =
             Inl (ValueError, ''Regex {!r} has no group to select the mailbox name portion.'',
                  [Val (VStr (re_pattern re r))]))
        \<and> (1 < re_groups re r \<and> action_data ''dest-mailbox-regex-group'' = None \<longrightarrow>
           fst (SortMailingList_init re action_data cfg w) =
             Inl (ValueError,
                  ''Regex {!r} has multiple groups and the action data does not specify the dest-mailbox-regex-group to use.'',
                  [Val (VStr (re_pattern re r))]))
        \<and> (re_groups re r = 1 \<and> action_data ''dest-mailbox-regex-group'' = None \<longrightarrow>
           fst (SortMailingList_init re action_data cfg w) =
             Inr (SortMailingList action_data cfg (dict_get action_data ''dest-mailbox-base'') r
                    (VInt 0)))
        \<and> (re_groups re r = 1 \<and> action_data ''dest-mailbox-regex-group'' = Some v \<longrightarrow>
           fst (SortMailingList_init re action_data cfg w) =
             Inr (SortMailingList action_data cfg (dict_get action_data ''dest-mailbox-base'') r
                    v)))
   \<and> calls (snd (SortMailingList_init re action_data cfg w)) = calls w"
  by (auto simp: init_defs dict_get_def dict_get_default_def split: sum.splits)

theorem SortMailingList_init_validation_witness:
  "fst (SortMailingList_init py_re Map.empty Map.empty \<lparr>calls = [], records = []\<rparr>) =
     Inl (ValueError, ''No dest-mailbox-base given for action {}'', [Dict Map.empty])
   \<and> fst (SortMailingList_init py_re
            [''dest-mailbox-base'' \<mapsto> VStr ''lists'', ''dest-mailbox-regex'' \<mapsto> VStr '':.*:'']
            Map.empty \<lparr>calls = [], records = []\<rparr>) =
     Inl (ValueError, ''Regex {!r} has no group to select the mailbox name portion.'',
          [Val (VStr '':.*:'')])
   \<and> fst (SortMailingList_init py_re
            [''dest-mailbox-base'' \<mapsto> VStr ''lists'',
             ''dest-mailbox-regex'' \<mapsto> VStr '':(.*):(.*):'']
            Map.empty \<lparr>calls = [], records = []\<rparr>) =
     Inl (ValueError,
          ''Regex {!r} has multiple groups and the action data does not specify the dest-mailbox-regex-group to use.'',
          [Val (VStr '':(.*):(.*):'')])
   \<and> (\<exists>r. fst (SortMailingList_init py_re [''dest-mailbox-base'' \<mapsto> VStr ''lists'']
                 Map.empty \<lparr>calls = [], records = []\<rparr>) =
          Inr (SortMailingList [''dest-mailbox-base'' \<mapsto> VStr ''lists''] Map.empty
                 (VStr ''lists'') r (VInt 0))
          \<and> c_pattern r = default_regex)
   \<and> (\<exists>r. fst (SortMailingList_init py_re
                 [''dest-mailbox-base'' \<mapsto> VStr ''lists'',
                  ''dest-mailbox-regex'' \<mapsto> VStr ''<(.*)>'',
                  ''dest-mailbox-regex-group'' \<mapsto> VInt 0]
                 Map.empty \<lparr>calls = [], records = []\<rparr>) =
          Inr (SortMailingList
                 [''dest-mailbox-base'' \<mapsto> VStr ''lists'',
                  ''dest-mailbox-regex'' \<mapsto> VStr ''<(.*)>'',
                  ''dest-mailbox-regex-group'' \<mapsto> VInt 0]
                 Map.empty (VStr ''lists'') r (VInt 0))
          \<and> c_pattern r = ''<(.*)>'')"
proof -
  let ?W = "\<lparr>calls = [], records = []\<rparr>"
  note a = SortMailingList_init_validation
             [where re = py_re and action_data = Map.empty and cfg = Map.empty and w = ?W]
  note b = SortMailingList_init_validation
             [where re = py_re and cfg = Map.empty and w = ?W
                and action_data = "[''dest-mailbox-base'' \<mapsto> VStr ''lists'',
                                    ''dest-mailbox-regex'' \<mapsto> VStr '':.*:'']"
                and r = "\<lparr>c_rx = Seq (Seq (Seq Eps (Lit CHR '':'')) (Star Dot)) (Lit CHR '':''),
                          c_groups = 0, c_pattern = '':.*:''\<rparr>"]
  note c = SortMailingList_init_validation
             [where re = py_re and cfg = Map.empty and w = ?W
                and action_data = "[''dest-mailbox-base'' \<mapsto> VStr ''lists'',
                                    ''dest-mailbox-regex'' \<mapsto> VStr '':(.*):(.*):'']"
                and r = "\<lparr>c_rx = Seq (Seq (Seq (Seq (Seq Eps (Lit CHR '':''))
                                   (Group 1 (Seq Eps (Star Dot)))) (Lit CHR '':''))
                                   (Group 2 (Seq Eps (Star Dot)))) (Lit CHR '':''),
                          c_groups = 2, c_pattern = '':(.*):(.*):''\<rparr>"]
  note d = SortMailingList_init_validation
             [where re = py_re and cfg = Map.empty and w = ?W
                and action_data = "[''dest-mailbox-base'' \<mapsto> VStr ''lists'']"
                and r = "\<lparr>c_rx = Seq (Seq (Seq (Seq (Seq Eps (Opt (Lit CHR ''<'')))
                                   (Group 1 (Seq Eps (Seq (CSet True ''.'')
                                                        (Star (CSet True ''.''))))))
                                   (Lit CHR ''.'')) (Star Dot)) (Opt (Lit CHR ''>'')),
                          c_groups = 1, c_pattern = default_regex\<rparr>"]
  note e = SortMailingList_init_validation
             [where re = py_re and cfg = Map.empty and w = ?W and v = "VInt 0"
                and action_data = "[''dest-mailbox-base'' \<mapsto> VStr ''lists'',
                                    ''dest-mailbox-regex'' \<mapsto> VStr ''<(.*)>'',
                                    ''dest-mailbox-regex-group'' \<mapsto> VInt 0]"
                and r = "\<lparr>c_rx = Seq (Seq (Seq Eps (Lit CHR ''<''))
                                   (Group 1 (Seq Eps (Star Dot)))) (Lit CHR ''>''),
                          c_groups = 1, c_pattern = ''<(.*)>''\<rparr>"]
  show ?thesis
    using a b c d e by (simp add: py_re_eval)
qed

lemmas invoke_defs = Move_invoke_def Delete_invoke_def SortMailingList_invoke_def call_def
  log_to_def Let_def

text \<open>
  Claim C3. For every action configuration and global configuration, the destination
  of a \<^verbatim>\<open>Trash\<close> action is the configuration's \<^verbatim>\<open>dest-mailbox\<close> when that is present
  (not \<^verbatim>\<open>None\<close>), whatever the global \<^verbatim>\<open>trash-mailbox\<close> is; it is the global
  \<^verbatim>\<open>trash-mailbox\<close> when \<^verbatim>\<open>dest-mailbox\<close> is absent; and when both are absent the
  constructor fails with the missing-trash-mailbox error. The constructor makes no call
  on the connection. Invoking the action gives the result and the connection call of a
  \<^verbatim>\<open>Move\<close> with the resolved destination.
\<close>

theorem Trash_init_fallback:
  fixes re :: "('r, 'm) re_module"
  shows
  \<open>(let res = (Trash_init action_data cfg w :: (error + 'r action) \<times> world)
    in (dict_get action_data ''dest-mailbox'' \<noteq> VNone \<longrightarrow>
          fst res = Inr (Trash action_data cfg (dict_get action_data ''dest-mailbox'')))
       \<and> (dict_get action_data ''dest-mailbox'' = VNone
            \<and> dict_get cfg ''trash-mailbox'' \<noteq> VNone \<longrightarrow>
          fst res = Inr (Trash action_data cfg (dict_get cfg ''trash-mailbox'')))
       \<and> (dict_get action_data ''dest-mailbox'' = VNone
            \<and> dict_get cfg ''trash-mailbox'' = VNone \<longrightarrow>
          fst res = Inl (ValueError, ''no "trash-mailbox" set in config'', []))
       \<and> calls (snd res) = calls w)
   \<and> fst (invoke re conn (Trash d c dest) src message_id message w) =
       fst (invoke re conn (Move d c dest) src message_id message w)
   \<and> calls (snd (invoke re conn (Trash d c dest) src message_id message w)) =
       calls (snd (invoke re conn (Move d c dest) src message_id message w))
   \<and> calls (snd (invoke re conn (Trash d c dest) src message_id message w)) =
       calls w @ [Move_message src dest message_id message]\<close>
  by (simp add: init_defs invoke_defs)

theorem Trash_init_fallback_witness:
  \<open>fst (Trash_init Map.empty [''trash-mailbox'' \<mapsto> VStr ''T'']
          \<lparr>calls = [], records = []\<rparr>) =
     Inr (Trash Map.empty [''trash-mailbox'' \<mapsto> VStr ''T''] (VStr ''T'') :: compiled action)
   \<and> fst (Trash_init [''dest-mailbox'' \<mapsto> VStr ''O''] [''trash-mailbox'' \<mapsto> VStr ''T'']
            \<lparr>calls = [], records = []\<rparr>) =
     Inr (Trash [''dest-mailbox'' \<mapsto> VStr ''O''] [''trash-mailbox'' \<mapsto> VStr ''T'']
            (VStr ''O'') :: compiled action)
   \<and> fst (Trash_init Map.empty Map.empty \<lparr>calls = [], records = []\<rparr>
            :: (error + compiled action) \<times> world) =
       Inl (ValueError, ''no "trash-mailbox" set in config'', [])
   \<and> calls (snd (invoke py_re Map.empty
                   (Trash Map.empty [''trash-mailbox'' \<mapsto> VStr ''T''] (VStr ''T''))
                   ''src-mailbox'' ''id-here'' Map.empty \<lparr>calls = [], records = []\<rparr>)) =
       [Move_message ''src-mailbox'' (VStr ''T'') ''id-here'' Map.empty]\<close>
proof -
  note t = Trash_init_fallback
             [where w = "\<lparr>calls = [], records = []\<rparr>" and re = py_re and conn = Map.empty
                and d = Map.empty and c = "[''trash-mailbox'' \<mapsto> VStr ''T'']"
                and dest = "VStr ''T''" and src = "''src-mailbox''"
                and message_id = "''id-here''" and message = Map.empty]
  show ?thesis
    using t [where action_data = Map.empty and cfg = "[''trash-mailbox'' \<mapsto> VStr ''T'']"]
          t [where action_data = "[''dest-mailbox'' \<mapsto> VStr ''O'']"
               and cfg = "[''trash-mailbox'' \<mapsto> VStr ''T'']"]
          t [where action_data = Map.empty and cfg = Map.empty]
    by (simp add: dict_get_def Let_def del: invoke.simps)
qed

text \<open>
  Claim C9. The fallback of \<^verbatim>\<open>Trash\<close> is taken only when the value of \<^verbatim>\<open>dest-mailbox\<close>
  is \<^verbatim>\<open>None\<close>, not when it is merely empty: for a configuration that maps
  \<^verbatim>\<open>dest-mailbox\<close> to the empty string, construction succeeds whatever the global
  configuration holds, the global \<^verbatim>\<open>trash-mailbox\<close> is not used, no error is raised, the
  destination is the empty string, and invoking the action passes that empty string to
  \<^verbatim>\<open>move_message\<close>.
\<close>

theorem Trash_init_empty_dest:
  "action_data ''dest-mailbox'' = Some (VStr []) \<Longrightarrow>
   fst (Trash_init action_data cfg w) = Inr (Trash action_data cfg (VStr []) :: 'r action)
   \<and> calls (snd (invoke (re :: ('r, 'm) re_module) conn (Trash action_data cfg (VStr [])) src message_id message w')) =
       calls w' @ [Move_message src (VStr []) message_id message]"
  by (simp add: init_defs invoke_defs dict_get_def)

theorem Trash_init_empty_dest_witness:
  "[''dest-mailbox'' \<mapsto> VStr []] ''dest-mailbox'' = Some (VStr [])
   \<and> fst (Trash_init [''dest-mailbox'' \<mapsto> VStr []] [''trash-mailbox'' \<mapsto> VStr ''T'']
            \<lparr>calls = [], records = []\<rparr>) =
       Inr (Trash [''dest-mailbox'' \<mapsto> VStr []] [''trash-mailbox'' \<mapsto> VStr ''T''] (VStr [])
              :: compiled action)
   \<and> calls (snd (invoke py_re Map.empty
                   (Trash [''dest-mailbox'' \<mapsto> VStr []] [''trash-mailbox'' \<mapsto> VStr ''T'']
                      (VStr []))
                   ''src'' ''id1'' Map.empty \<lparr>calls = [], records = []\<rparr>)) =
       [Move_message ''src'' (VStr []) ''id1'' Map.empty]"
proof -
  have h: "[''dest-mailbox'' \<mapsto> VStr []] ''dest-mailbox'' = Some (VStr [])"
    by simp
  show ?thesis
    using h Trash_init_empty_dest
              [where action_data = "[''dest-mailbox'' \<mapsto> VStr []]"
                 and cfg = "[''trash-mailbox'' \<mapsto> VStr ''T'']"
                 and w = "\<lparr>calls = [], records = []\<rparr>" and re = py_re and conn = Map.empty
                 and src = "''src''" and message_id = "''id1''" and message = Map.empty
                 and w' = "\<lparr>calls = [], records = []\<rparr>", OF h]
    by (simp del: invoke.simps)
qed



section \<open>Resolution of the destination and invocation\<close>

lemma get_dest_mailbox_world:
  "calls (snd (get_dest_mailbox re base r g message_id message w)) = calls w
   \<and> filter (\<lambda>x. level x = INFO)
        (records (snd (get_dest_mailbox re base r g message_id message w))) =
      filter (\<lambda>x. level x = INFO) (records w)"
  by (simp add: get_dest_mailbox_def log_to_def Let_def split: option.splits sum.splits)

lemma get_dest_mailbox_no_match:
  "re_search re r (msg_get message ''list-id'' []) = None \<Longrightarrow>
   get_dest_mailbox re base r g message_id message w =
     (Inl (ValueError,
           ''Could not determine destination mailbox from list-id {!r} with regex {!r}'',
           [Val (VStr (msg_get message ''list-id'' [])), Compiled (re_pattern re r)]), w)"
  by (simp add: get_dest_mailbox_def)

lemma get_dest_mailbox_match:
  "re_search re r (msg_get message ''list-id'' []) = Some m \<Longrightarrow>
   fst (get_dest_mailbox re base r g message_id message w) =
     (case tuple_getitem (match_groups re r m) g of
        Inl e \<Rightarrow> Inl e
      | Inr v \<Rightarrow> Inr (py_str base @ ''.'' @ py_str v))"
  by (simp add: get_dest_mailbox_def Let_def split: sum.splits)

text \<open>
  Claim C1. For a message whose \<^verbatim>\<open>list-id\<close> header the configured pattern matches, and
  a configured group index \<open>i\<close> within the captured groups, \<^verbatim>\<open>_get_dest_mailbox\<close> returns
  the base, a dot, and the text of entry \<open>i\<close> of \<^verbatim>\<open>match.groups()\<close>, counted from 0;
  entry \<open>i\<close> is the pattern's group number \<open>i + 1\<close>, the whole match not being among the
  entries. With base \<^verbatim>\<open>lists\<close> and the default pattern, the header
  \<^verbatim>\<open><sphinx-dev.googlegroups.com>\<close> resolves to \<^verbatim>\<open>lists.sphinx-dev\<close>; with the pattern
  \<^verbatim>\<open><(.*)>\<close> it resolves to \<^verbatim>\<open>lists.sphinx-dev.googlegroups.com\<close>.
\<close>

theorem get_dest_mailbox_resolves:
  fixes re :: "('r, 'm) re_module"
  shows
  "(re_search re r (msg_get message ''list-id'' []) = Some m
      \<and> 0 \<le> i \<and> i < int (re_groups re r) \<longrightarrow>
      fst (get_dest_mailbox re base r (VInt i) message_id message w) =
        Inr (py_str base @ ''.'' @ py_str (match_groups re r m ! nat i))
      \<and> match_groups re r m ! nat i =
          (case m_group re m (Suc (nat i)) of None \<Rightarrow> VNone | Some s \<Rightarrow> VStr s))
   \<and> (\<exists>r0. fst (SortMailingList_init py_re [''dest-mailbox-base'' \<mapsto> VStr ''lists'']
                  Map.empty w0) =
            Inr (SortMailingList [''dest-mailbox-base'' \<mapsto> VStr ''lists''] Map.empty
                   (VStr ''lists'') r0 (VInt 0))
          \<and> c_pattern r0 = default_regex
          \<and> fst (get_dest_mailbox py_re (VStr ''lists'') r0 (VInt 0) message_id
                   [''list-id'' \<mapsto> ''<sphinx-dev.googlegroups.com>''] w1) =
              Inr ''lists.sphinx-dev'')
   \<and> (\<exists>r1. fst (SortMailingList_init py_re
                   [''dest-mailbox-base'' \<mapsto> VStr ''lists'',
                    ''dest-mailbox-regex'' \<mapsto> VStr ''<(.*)>''] Map.empty w0) =
            Inr (SortMailingList
                   [''dest-mailbox-base'' \<mapsto> VStr ''lists'',
                    ''dest-mailbox-regex'' \<mapsto> VStr ''<(.*)>''] Map.empty
                   (VStr ''lists'') r1 (VInt 0))
          \<and> c_pattern r1 = ''<(.*)>''
          \<and> fst (get_dest_mailbox py_re (VStr ''lists'') r1 (VInt 0) message_id
                   [''list-id'' \<mapsto> ''<sphinx-dev.googlegroups.com>''] w1) =
              Inr ''lists.sphinx-dev.googlegroups.com'')"
proof (intro conjI impI)
  assume h: "re_search re r (msg_get message ''list-id'' []) = Some m
             \<and> 0 \<le> i \<and> i < int (re_groups re r)"
  then show "fst (get_dest_mailbox re base r (VInt i) message_id message w) =
               Inr (py_str base @ ''.'' @ py_str (match_groups re r m ! nat i))"
    by (simp add: get_dest_mailbox_match tuple_index_def length_match_groups)
  from h have "nat i < re_groups re r"
    by linarith
  then show "match_groups re r m ! nat i =
               (case m_group re m (Suc (nat i)) of None \<Rightarrow> VNone | Some s \<Rightarrow> VStr s)"
    by (rule match_groups_nth)
next
  let ?r0 = "\<lparr>c_rx = Seq (Seq (Seq (Seq (Seq Eps (Opt (Lit CHR ''<'')))
                      (Group 1 (Seq Eps (Seq (CSet True ''.'') (Star (CSet True ''.''))))))
                      (Lit CHR ''.'')) (Star Dot)) (Opt (Lit CHR ''>'')),
             c_groups = 1, c_pattern = default_regex\<rparr>"
  have a: "fst (SortMailingList_init py_re [''dest-mailbox-base'' \<mapsto> VStr ''lists'']
                  Map.empty w0) =
             Inr (SortMailingList [''dest-mailbox-base'' \<mapsto> VStr ''lists''] Map.empty
                    (VStr ''lists'') ?r0 (VInt 0))"
    by (simp add: init_defs py_re_eval)
  have s: "re_search py_re ?r0
             (msg_get [''list-id'' \<mapsto> ''<sphinx-dev.googlegroups.com>''] ''list-id'' []) =
           Some [(1, ''sphinx-dev'')]"
    by (simp add: py_re_eval)
  have b: "fst (get_dest_mailbox py_re (VStr ''lists'') ?r0 (VInt 0) message_id
                  [''list-id'' \<mapsto> ''<sphinx-dev.googlegroups.com>''] w1) =
             Inr ''lists.sphinx-dev''"
    by (subst get_dest_mailbox_match [OF s]) (simp add: match_groups_def tuple_index_def py_re_sel)
  show "\<exists>r0. fst (SortMailingList_init py_re [''dest-mailbox-base'' \<mapsto> VStr ''lists'']
                  Map.empty w0) =
            Inr (SortMailingList [''dest-mailbox-base'' \<mapsto> VStr ''lists''] Map.empty
                   (VStr ''lists'') r0 (VInt 0))
          \<and> c_pattern r0 = default_regex
          \<and> fst (get_dest_mailbox py_re (VStr ''lists'') r0 (VInt 0) message_id
                   [''list-id'' \<mapsto> ''<sphinx-dev.googlegroups.com>''] w1) =
              Inr ''lists.sphinx-dev''"
    using a b by (intro exI [of _ ?r0]) simp
next
  let ?r1 = "\<lparr>c_rx = Seq (Seq (Seq Eps (Lit CHR ''<'')) (Group 1 (Seq Eps (Star Dot))))
                      (Lit CHR ''>''),
             c_groups = 1, c_pattern = ''<(.*)>''\<rparr>"
  have a: "fst (SortMailingList_init py_re
                  [''dest-mailbox-base'' \<mapsto> VStr ''lists'',
                   ''dest-mailbox-regex'' \<mapsto> VStr ''<(.*)>''] Map.empty w0) =
             Inr (SortMailingList
                    [''dest-mailbox-base'' \<mapsto> VStr ''lists'',
                     ''dest-mailbox-regex'' \<mapsto> VStr ''<(.*)>''] Map.empty
                    (VStr ''lists'') ?r1 (VInt 0))"
    by (simp add: init_defs py_re_eval)
  have s: "re_search py_re ?r1
             (msg_get [''list-id'' \<mapsto> ''<sphinx-dev.googlegroups.com>''] ''list-id'' []) =
           Some [(1, ''sphinx-dev.googlegroups.com'')]"
    by (simp add: py_re_eval)
  have b: "fst (get_dest_mailbox py_re (VStr ''lists'') ?r1 (VInt 0) message_id
                  [''list-id'' \<mapsto> ''<sphinx-dev.googlegroups.com>''] w1) =
             Inr ''lists.sphinx-dev.googlegroups.com''"
    by (subst get_dest_mailbox_match [OF s]) (simp add: match_groups_def tuple_index_def py_re_sel)
  show "\<exists>r1. fst (SortMailingList_init py_re
                   [''dest-mailbox-base'' \<mapsto> VStr ''lists'',
                    ''dest-mailbox-regex'' \<mapsto> VStr ''<(.*)>''] Map.empty w0) =
            Inr (SortMailingList
                   [''dest-mailbox-base'' \<mapsto> VStr ''lists'',
                    ''dest-mailbox-regex'' \<mapsto> VStr ''<(.*)>''] Map.empty
                   (VStr ''lists'') r1 (VInt 0))
          \<and> c_pattern r1 = ''<(.*)>''
          \<and> fst (get_dest_mailbox py_re (VStr ''lists'') r1 (VInt 0) message_id
                   [''list-id'' \<mapsto> ''<sphinx-dev.googlegroups.com>''] w1) =
              Inr ''lists.sphinx-dev.googlegroups.com''"
    using a b by (intro exI [of _ ?r1]) simp
qed

theorem get_dest_mailbox_resolves_witness:
  "fst (get_dest_mailbox py_re (VStr ''lists'')
          \<lparr>c_rx = Seq (Seq (Seq (Seq (Seq Eps (Lit CHR '':'')) (Group 1 (Seq Eps (Star Dot))))
                    (Lit CHR '':'')) (Group 2 (Seq Eps (Star Dot)))) (Lit CHR '':''),
           c_groups = 2, c_pattern = '':(.*):(.*):''\<rparr>
          (VInt 1) ''id-here'' [''list-id'' \<mapsto> '':a:b:'']
          \<lparr>calls = [], records = []\<rparr>) =
     Inr ''lists.b''"
proof -
  let ?r = "\<lparr>c_rx = Seq (Seq (Seq (Seq (Seq Eps (Lit CHR '':'')) (Group 1 (Seq Eps (Star Dot))))
                    (Lit CHR '':'')) (Group 2 (Seq Eps (Star Dot)))) (Lit CHR '':''),
            c_groups = 2, c_pattern = '':(.*):(.*):''\<rparr>"
  have h: "re_search py_re ?r (msg_get [''list-id'' \<mapsto> '':a:b:''] ''list-id'' []) =
             Some [(2, ''b''), (1, ''a'')]
           \<and> (0::int) \<le> 1 \<and> 1 < int (re_groups py_re ?r)"
    by (simp add: py_re_eval)
  show ?thesis
    using h get_dest_mailbox_resolves
              [where re = py_re and r = ?r and message = "[''list-id'' \<mapsto> '':a:b:'']"
                 and m = "[(2, ''b''), (1, ''a'')]" and i = 1 and base = "VStr ''lists''"
                 and message_id = "''id-here''" and w = "\<lparr>calls = [], records = []\<rparr>"]
    by (simp add: py_re_sel match_groups_def)
qed

text \<open>
  Claim C5. For every message whose \<^verbatim>\<open>list-id\<close> value (the empty string when the header
  is missing) the compiled pattern does not match under \<^verbatim>\<open>search\<close>, \<^verbatim>\<open>invoke\<close> of a
  \<^verbatim>\<open>SortMailingList\<close> fails with the destination-resolution error, which names the
  \<^verbatim>\<open>list-id\<close> value and the pattern, and leaves the connection and the log as they were:
  \<^verbatim>\<open>move_message\<close> is not called. A message with no \<^verbatim>\<open>list-id\<close> header fails this way
  under the default pattern, for an object whose construction succeeded: the failure is
  one of \<^verbatim>\<open>invoke\<close>, not of the constructor.
\<close>

theorem SortMailingList_invoke_no_match:
  fixes re :: "('r, 'm) re_module"
  shows
  "(re_search re r (msg_get message ''list-id'' []) = None \<longrightarrow>
      invoke re conn (SortMailingList d c base r g) src message_id message w =
        (Inl (ValueError,
              ''Could not determine destination mailbox from list-id {!r} with regex {!r}'',
              [Val (VStr (msg_get message ''list-id'' [])), Compiled (re_pattern re r)]), w))
   \<and> (\<exists>r0. fst (SortMailingList_init py_re [''dest-mailbox-base'' \<mapsto> VStr ''lists'']
                  Map.empty w0) =
            Inr (SortMailingList [''dest-mailbox-base'' \<mapsto> VStr ''lists''] Map.empty
                   (VStr ''lists'') r0 (VInt 0))
          \<and> invoke py_re conn
              (SortMailingList [''dest-mailbox-base'' \<mapsto> VStr ''lists''] Map.empty
                 (VStr ''lists'') r0 (VInt 0))
              src message_id Map.empty w =
            (Inl (ValueError,
                  ''Could not determine destination mailbox from list-id {!r} with regex {!r}'',
                  [Val (VStr []), Compiled default_regex]), w))"
proof (intro conjI impI)
  assume "re_search re r (msg_get message ''list-id'' []) = None"
  then show "invoke re conn (SortMailingList d c base r g) src message_id message w =
        (Inl (ValueError,
              ''Could not determine destination mailbox from list-id {!r} with regex {!r}'',
              [Val (VStr (msg_get message ''list-id'' [])), Compiled (re_pattern re r)]), w)"
    by (simp add: SortMailingList_invoke_def get_dest_mailbox_no_match)
next
  let ?r0 = "\<lparr>c_rx = Seq (Seq (Seq (Seq (Seq Eps (Opt (Lit CHR ''<'')))
                      (Group 1 (Seq Eps (Seq (CSet True ''.'') (Star (CSet True ''.''))))))
                      (Lit CHR ''.'')) (Star Dot)) (Opt (Lit CHR ''>'')),
             c_groups = 1, c_pattern = default_regex\<rparr>"
  have a: "fst (SortMailingList_init py_re [''dest-mailbox-base'' \<mapsto> VStr ''lists'']
                  Map.empty w0) =
             Inr (SortMailingList [''dest-mailbox-base'' \<mapsto> VStr ''lists''] Map.empty
                    (VStr ''lists'') ?r0 (VInt 0))"
    by (simp add: init_defs py_re_eval)
  have s: "re_search py_re ?r0 (msg_get Map.empty ''list-id'' []) = None"
    by (simp add: py_re_eval)
  have b: "invoke py_re conn
              (SortMailingList [''dest-mailbox-base'' \<mapsto> VStr ''lists''] Map.empty
                 (VStr ''lists'') ?r0 (VInt 0))
              src message_id Map.empty w =
            (Inl (ValueError,
                  ''Could not determine destination mailbox from list-id {!r} with regex {!r}'',
                  [Val (VStr []), Compiled default_regex]), w)"
    unfolding invoke.simps SortMailingList_invoke_def
    by (subst get_dest_mailbox_no_match [OF s]) (simp add: py_re_sel msg_get_def)
  show "\<exists>r0. fst (SortMailingList_init py_re [''dest-mailbox-base'' \<mapsto> VStr ''lists'']
                  Map.empty w0) =
            Inr (SortMailingList [''dest-mailbox-base'' \<mapsto> VStr ''lists''] Map.empty
                   (VStr ''lists'') r0 (VInt 0))
          \<and> invoke py_re conn
              (SortMailingList [''dest-mailbox-base'' \<mapsto> VStr ''lists''] Map.empty
                 (VStr ''lists'') r0 (VInt 0))
              src message_id Map.empty w =
            (Inl (ValueError,
                  ''Could not determine destination mailbox from list-id {!r} with regex {!r}'',
                  [Val (VStr []), Compiled default_regex]), w)"
    using a b by (intro exI [of _ ?r0]) (simp del: invoke.simps)
qed

theorem SortMailingList_invoke_no_match_witness:
  "invoke py_re Map.empty
     (SortMailingList [''dest-mailbox-base'' \<mapsto> VStr ''lists''] Map.empty (VStr ''lists'')
        \<lparr>c_rx = Seq (Seq (Seq Eps (Lit CHR ''<'')) (Group 1 (Seq Eps (Star Dot))))
                   (Lit CHR ''>''),
          c_groups = 1, c_pattern = ''<(.*)>''\<rparr> (VInt 0))
     ''src'' ''id1'' Map.empty \<lparr>calls = [], records = []\<rparr> =
   (Inl (ValueError,
         ''Could not determine destination mailbox from list-id {!r} with regex {!r}'',
         [Val (VStr []), Compiled ''<(.*)>'']), \<lparr>calls = [], records = []\<rparr>)"
proof -
  let ?r = "\<lparr>c_rx = Seq (Seq (Seq Eps (Lit CHR ''<'')) (Group 1 (Seq Eps (Star Dot))))
                   (Lit CHR ''>''),
            c_groups = 1, c_pattern = ''<(.*)>''\<rparr>"
  have h: "re_search py_re ?r (msg_get Map.empty ''list-id'' []) = None"
    by (simp add: py_re_sel msg_get_def) code_simp
  show ?thesis
    using h SortMailingList_invoke_no_match
              [where re = py_re and r = ?r and message = Map.empty and conn = Map.empty
                 and d = "[''dest-mailbox-base'' \<mapsto> VStr ''lists'']" and c = Map.empty
                 and base = "VStr ''lists''" and g = "VInt 0" and src = "''src''"
                 and message_id = "''id1''" and w = "\<lparr>calls = [], records = []\<rparr>"]
    by (simp add: py_re_sel msg_get_def del: invoke.simps)
qed

text \<open>
  Claim C8. The constructor of \<^verbatim>\<open>SortMailingList\<close> does not compare the value of
  \<^verbatim>\<open>dest-mailbox-regex-group\<close> with the number of groups of the pattern: whenever the
  base is given, the pattern compiles with at least one group and the key is present,
  construction succeeds with the supplied value, whatever it is. When the value is an
  integer greater than or equal to the number of groups, \<^verbatim>\<open>invoke\<close> fails for every
  message whose \<^verbatim>\<open>list-id\<close> the pattern matches, with the out-of-range error of the
  indexing \<^verbatim>\<open>match.groups()[index]\<close>, not with the destination-resolution error, and
  without a call on the connection.
\<close>

theorem SortMailingList_group_out_of_range:
  fixes re :: "('r, 'm) re_module"
  assumes "truthy (dict_get action_data ''dest-mailbox-base'')"
    and "compile_value re
           (dict_get_default action_data ''dest-mailbox-regex'' (VStr default_regex)) = Inr r"
    and "0 < re_groups re r"
    and "action_data ''dest-mailbox-regex-group'' = Some v"
  shows
    "fst (SortMailingList_init re action_data cfg w) =
       Inr (SortMailingList action_data cfg (dict_get action_data ''dest-mailbox-base'') r v)
     \<and> (\<forall>n message m conn src message_id w'.
           v = VInt n \<and> int (re_groups re r) \<le> n
           \<and> re_search re r (msg_get message ''list-id'' []) = Some m \<longrightarrow>
           fst (invoke re conn
                  (SortMailingList action_data cfg (dict_get action_data ''dest-mailbox-base'')
                     r v)
                  src message_id message w') =
             Inl (IndexError, ''tuple index out of range'', [])
           \<and> calls (snd (invoke re conn
                  (SortMailingList action_data cfg (dict_get action_data ''dest-mailbox-base'')
                     r v)
                  src message_id message w')) = calls w')"
proof (intro conjI allI impI)
  show "fst (SortMailingList_init re action_data cfg w) =
       Inr (SortMailingList action_data cfg (dict_get action_data ''dest-mailbox-base'') r v)"
    using assms by (simp add: init_defs dict_get_default_def)
next
  fix n message m conn src message_id w'
  assume h: "v = VInt n \<and> int (re_groups re r) \<le> n
             \<and> re_search re r (msg_get message ''list-id'' []) = Some m"
  let ?base = "dict_get action_data ''dest-mailbox-base''"
  from h have idx: "tuple_getitem (match_groups re r m) (VInt n) =
                      Inl (IndexError, ''tuple index out of range'', [])"
    by (simp add: tuple_index_def length_match_groups)
  from h idx have g: "fst (get_dest_mailbox re ?base r v message_id message w') =
                    Inl (IndexError, ''tuple index out of range'', [])"
    by (simp add: get_dest_mailbox_match)
  have c: "calls (snd (get_dest_mailbox re ?base r v message_id message w')) = calls w'"
    by (simp add: get_dest_mailbox_world)
  obtain res w1 where e: "get_dest_mailbox re ?base r v message_id message w' = (res, w1)"
    by (cases "get_dest_mailbox re ?base r v message_id message w'")
  from g c e show "fst (invoke re conn (SortMailingList action_data cfg ?base r v)
                          src message_id message w') =
                     Inl (IndexError, ''tuple index out of range'', [])"
    by (simp add: SortMailingList_invoke_def)
  from g c e show "calls (snd (invoke re conn (SortMailingList action_data cfg ?base r v)
                          src message_id message w')) = calls w'"
    by (simp add: SortMailingList_invoke_def)
qed

theorem SortMailingList_group_out_of_range_witness:
  "fst (SortMailingList_init py_re
          [''dest-mailbox-base'' \<mapsto> VStr ''lists'',
           ''dest-mailbox-regex'' \<mapsto> VStr '':(.*):(.*):'',
           ''dest-mailbox-regex-group'' \<mapsto> VInt 2]
          Map.empty \<lparr>calls = [], records = []\<rparr>) =
     Inr (SortMailingList
            [''dest-mailbox-base'' \<mapsto> VStr ''lists'',
             ''dest-mailbox-regex'' \<mapsto> VStr '':(.*):(.*):'',
             ''dest-mailbox-regex-group'' \<mapsto> VInt 2]
            Map.empty (VStr ''lists'')
            \<lparr>c_rx = Seq (Seq (Seq (Seq (Seq Eps (Lit CHR '':'')) (Group 1 (Seq Eps (Star Dot))))
                      (Lit CHR '':'')) (Group 2 (Seq Eps (Star Dot)))) (Lit CHR '':''),
             c_groups = 2, c_pattern = '':(.*):(.*):''\<rparr> (VInt 2))
   \<and> fst (invoke py_re Map.empty
            (SortMailingList
               [''dest-mailbox-base'' \<mapsto> VStr ''lists'',
                ''dest-mailbox-regex'' \<mapsto> VStr '':(.*):(.*):'',
                ''dest-mailbox-regex-group'' \<mapsto> VInt 2]
               Map.empty (VStr ''lists'')
               \<lparr>c_rx = Seq (Seq (Seq (Seq (Seq Eps (Lit CHR '':''))
                            (Group 1 (Seq Eps (Star Dot)))) (Lit CHR '':''))
                            (Group 2 (Seq Eps (Star Dot)))) (Lit CHR '':''),
                c_groups = 2, c_pattern = '':(.*):(.*):''\<rparr> (VInt 2))
            ''src'' ''id1'' [''list-id'' \<mapsto> '':a:b:''] \<lparr>calls = [], records = []\<rparr>) =
       Inl (IndexError, ''tuple index out of range'', [])"
proof -
  let ?d = "[''dest-mailbox-base'' \<mapsto> VStr ''lists'',
             ''dest-mailbox-regex'' \<mapsto> VStr '':(.*):(.*):'',
             ''dest-mailbox-regex-group'' \<mapsto> VInt 2]"
  let ?r = "\<lparr>c_rx = Seq (Seq (Seq (Seq (Seq Eps (Lit CHR '':'')) (Group 1 (Seq Eps (Star Dot))))
                    (Lit CHR '':'')) (Group 2 (Seq Eps (Star Dot)))) (Lit CHR '':''),
            c_groups = 2, c_pattern = '':(.*):(.*):''\<rparr>"
  have h1: "truthy (dict_get ?d ''dest-mailbox-base'')"
    by (simp add: dict_get_def)
  have h2: "compile_value py_re (dict_get_default ?d ''dest-mailbox-regex'' (VStr default_regex))
              = Inr ?r"
    by (simp add: py_re_eval)
  have h3: "0 < re_groups py_re ?r"
    by (simp add: py_re_sel)
  have h4: "?d ''dest-mailbox-regex-group'' = Some (VInt 2)"
    by simp
  have s: "re_search py_re ?r (msg_get [''list-id'' \<mapsto> '':a:b:''] ''list-id'' []) =
             Some [(2, ''b''), (1, ''a'')]"
    by (simp add: py_re_eval)
  note t = SortMailingList_group_out_of_range
             [where re = py_re and action_data = ?d and r = ?r and v = "VInt 2"
                and cfg = Map.empty and w = "\<lparr>calls = [], records = []\<rparr>",
              OF h1 h2 h3 h4]
  from t have a: "fst (SortMailingList_init py_re ?d Map.empty \<lparr>calls = [], records = []\<rparr>) =
                    Inr (SortMailingList ?d Map.empty (dict_get ?d ''dest-mailbox-base'') ?r
                           (VInt 2))"
    by (rule conjunct1)
  from t have b: "VInt 2 = VInt 2 \<and> int (re_groups py_re ?r) \<le> 2
           \<and> re_search py_re ?r (msg_get [''list-id'' \<mapsto> '':a:b:''] ''list-id'' []) =
               Some [(2, ''b''), (1, ''a'')] \<longrightarrow>
           fst (invoke py_re Map.empty
                  (SortMailingList ?d Map.empty (dict_get ?d ''dest-mailbox-base'') ?r (VInt 2))
                  ''src'' ''id1'' [''list-id'' \<mapsto> '':a:b:''] \<lparr>calls = [], records = []\<rparr>) =
             Inl (IndexError, ''tuple index out of range'', [])
           \<and> calls (snd (invoke py_re Map.empty
                  (SortMailingList ?d Map.empty (dict_get ?d ''dest-mailbox-base'') ?r (VInt 2))
                  ''src'' ''id1'' [''list-id'' \<mapsto> '':a:b:''] \<lparr>calls = [], records = []\<rparr>)) =
               calls \<lparr>calls = [], records = []\<rparr>"
    by blast
  have c: "int (re_groups py_re ?r) \<le> 2"
    by (simp add: py_re_sel)
  from b c s have d: "fst (invoke py_re Map.empty
                  (SortMailingList ?d Map.empty (dict_get ?d ''dest-mailbox-base'') ?r (VInt 2))
                  ''src'' ''id1'' [''list-id'' \<mapsto> '':a:b:''] \<lparr>calls = [], records = []\<rparr>) =
             Inl (IndexError, ''tuple index out of range'', [])"
    by blast
  have e: "dict_get ?d ''dest-mailbox-base'' = VStr ''lists''"
    by (simp add: dict_get_def)
  from a d show ?thesis
    unfolding e by (rule conjI)
qed

lemma SortMailingList_invoke_cases:
  "(\<exists>e. fst (get_dest_mailbox re base r g message_id message w) = Inl e
        \<and> fst (SortMailingList_invoke re conn base r g src message_id message w) = Inl e
        \<and> calls (snd (SortMailingList_invoke re conn base r g src message_id message w)) =
            calls w)
   \<or> (\<exists>dest. fst (get_dest_mailbox re base r g message_id message w) = Inr dest
        \<and> calls (snd (SortMailingList_invoke re conn base r g src message_id message w)) =
            calls w @ [Move_message src (VStr dest) message_id message]
        \<and> filter (\<lambda>x. level x = INFO)
             (records (snd (SortMailingList_invoke re conn base r g src message_id message w))) =
           filter (\<lambda>x. level x = INFO) (records w) @
             [\<lparr>logger = ''SortMailingList'', level = INFO, fmt = ''%s (%s) to %s'',
               args = [Val (VStr message_id), Val (msg_getitem message ''subject''),
                       Val (VStr dest)]\<rparr>])"
proof -
  obtain res w1 where e: "get_dest_mailbox re base r g message_id message w = (res, w1)"
    by (cases "get_dest_mailbox re base r g message_id message w")
  have c: "calls w1 = calls w"
    and f: "filter (\<lambda>x. level x = INFO) (records w1) = filter (\<lambda>x. level x = INFO) (records w)"
    using get_dest_mailbox_world [of re base r g message_id message w] e by simp_all
  show ?thesis
  proof (cases res)
    case (Inl err)
    have "fst (get_dest_mailbox re base r g message_id message w) = Inl err"
      using e Inl by simp
    moreover have
      "fst (SortMailingList_invoke re conn base r g src message_id message w) = Inl err
       \<and> calls (snd (SortMailingList_invoke re conn base r g src message_id message w)) =
           calls w"
      using e c Inl by (simp add: SortMailingList_invoke_def)
    ultimately show ?thesis
      by blast
  next
    case (Inr dest)
    with e c f show ?thesis
      by (simp add: SortMailingList_invoke_def call_def log_to_def)
  qed
qed

lemma SortMailingList_invoke_resolved:
  assumes "fst (get_dest_mailbox re base r g message_id message w) = Inr dest"
  shows
    "fst (SortMailingList_invoke re conn base r g src message_id message w) =
       (case conn (Move_message src (VStr dest) message_id message) of
          None \<Rightarrow> Inr () | Some e \<Rightarrow> Inl e)
     \<and> calls (snd (SortMailingList_invoke re conn base r g src message_id message w)) =
         calls w @ [Move_message src (VStr dest) message_id message]
     \<and> filter (\<lambda>x. level x = INFO)
          (records (snd (SortMailingList_invoke re conn base r g src message_id message w))) =
        filter (\<lambda>x. level x = INFO) (records w) @
          [\<lparr>logger = ''SortMailingList'', level = INFO, fmt = ''%s (%s) to %s'',
            args = [Val (VStr message_id), Val (msg_getitem message ''subject''),
                    Val (VStr dest)]\<rparr>]"
proof -
  obtain res w1 where e: "get_dest_mailbox re base r g message_id message w = (res, w1)"
    by (cases "get_dest_mailbox re base r g message_id message w")
  have c: "calls w1 = calls w"
    and f: "filter (\<lambda>x. level x = INFO) (records w1) = filter (\<lambda>x. level x = INFO) (records w)"
    using get_dest_mailbox_world [of re base r g message_id message w] e by simp_all
  from assms e have "res = Inr dest"
    by simp
  with e c f show ?thesis
    by (simp add: SortMailingList_invoke_def call_def log_to_def)
qed

text \<open>
  Claim C7. Every successful \<^verbatim>\<open>invoke\<close> makes exactly one call on the connection: the
  calls received by the connection grow by one call, which is a \<^verbatim>\<open>move_message\<close> for
  \<^verbatim>\<open>Move\<close>, \<^verbatim>\<open>Trash\<close> and \<^verbatim>\<open>SortMailingList\<close> (to the resolved destination) and a
  \<^verbatim>\<open>delete_message\<close> for \<^verbatim>\<open>Delete\<close>; and the log grows by exactly one record of level
  \<^verbatim>\<open>INFO\<close>. Each class does make its call and write its record: \<^verbatim>\<open>Move\<close>, \<^verbatim>\<open>Trash\<close> and
  \<^verbatim>\<open>Delete\<close> always, \<^verbatim>\<open>SortMailingList\<close> whenever the destination resolves, and the
  invocation succeeds exactly when the connection returns from that call. In particular
  \<^verbatim>\<open>Delete({}, {})\<close> invoked on \<^verbatim>\<open>("src", "id1", msg)\<close> calls
  \<^verbatim>\<open>delete_message("src", "id1", msg)\<close> once and \<^verbatim>\<open>move_message\<close> never,
  \<^verbatim>\<open>Move\<close> with \<^verbatim>\<open>dest-mailbox\<close> \<^verbatim>\<open>X\<close> calls \<^verbatim>\<open>move_message("src", "X", "id1", msg)\<close> once,
  and a \<^verbatim>\<open>SortMailingList\<close> with base \<^verbatim>\<open>lists-go-under-here\<close> and pattern \<^verbatim>\<open><(.*)>\<close> moves
  a message of the list \<^verbatim>\<open><sphinx-dev.googlegroups.com>\<close> to
  \<^verbatim>\<open>lists-go-under-here.sphinx-dev.googlegroups.com\<close>.
\<close>

theorem invoke_one_connection_call:
  fixes re :: "('r, 'm) re_module"
  shows
  "(fst (invoke re conn a src message_id message w) = Inr () \<longrightarrow>
      (\<exists>c. calls (snd (invoke re conn a src message_id message w)) = calls w @ [c]
           \<and> (case a of
                Move d cf dest \<Rightarrow> c = Move_message src dest message_id message
              | SortMailingList d cf base r g \<Rightarrow>
                  (\<exists>dest. fst (get_dest_mailbox re base r g message_id message w) = Inr dest
                          \<and> c = Move_message src (VStr dest) message_id message)
              | Trash d cf dest \<Rightarrow> c = Move_message src dest message_id message
              | Delete d cf \<Rightarrow> c = Delete_message src message_id message))
      \<and> length (filter (\<lambda>x. level x = INFO)
                  (records (snd (invoke re conn a src message_id message w)))) =
          Suc (length (filter (\<lambda>x. level x = INFO) (records w))))
   \<and> (fst (invoke re conn (Move d cf dest) src message_id message w) =
         (case conn (Move_message src dest message_id message) of
            None \<Rightarrow> Inr () | Some e \<Rightarrow> Inl e)
       \<and> calls (snd (invoke re conn (Move d cf dest) src message_id message w)) =
           calls w @ [Move_message src dest message_id message]
       \<and> filter (\<lambda>x. level x = INFO)
            (records (snd (invoke re conn (Move d cf dest) src message_id message w))) =
          filter (\<lambda>x. level x = INFO) (records w) @
            [\<lparr>logger = ''Move'', level = INFO, fmt = ''%s (%s) to %s'',
              args = [Val (VStr message_id), Val (msg_getitem message ''subject''),
                      Val dest]\<rparr>])
   \<and> (fst (invoke re conn (Trash d cf dest) src message_id message w) =
         (case conn (Move_message src dest message_id message) of
            None \<Rightarrow> Inr () | Some e \<Rightarrow> Inl e)
       \<and> calls (snd (invoke re conn (Trash d cf dest) src message_id message w)) =
           calls w @ [Move_message src dest message_id message]
       \<and> filter (\<lambda>x. level x = INFO)
            (records (snd (invoke re conn (Trash d cf dest) src message_id message w))) =
          filter (\<lambda>x. level x = INFO) (records w) @
            [\<lparr>logger = ''Trash'', level = INFO, fmt = ''%s (%s) to %s'',
              args = [Val (VStr message_id), Val (msg_getitem message ''subject''),
                      Val dest]\<rparr>])
   \<and> (fst (invoke re conn (Delete d cf) src message_id message w) =
         (case conn (Delete_message src message_id message) of
            None \<Rightarrow> Inr () | Some e \<Rightarrow> Inl e)
       \<and> calls (snd (invoke re conn (Delete d cf) src message_id message w)) =
           calls w @ [Delete_message src message_id message]
       \<and> filter (\<lambda>x. level x = INFO)
            (records (snd (invoke re conn (Delete d cf) src message_id message w))) =
          filter (\<lambda>x. level x = INFO) (records w) @
            [\<lparr>logger = ''Delete'', level = INFO, fmt = ''%s (%s)'',
              args = [Val (VStr message_id), Val (msg_getitem message ''subject'')]\<rparr>])
   \<and> (fst (get_dest_mailbox re base r g message_id message w) = Inr dest' \<longrightarrow>
         fst (invoke re conn (SortMailingList d cf base r g) src message_id message w) =
           (case conn (Move_message src (VStr dest') message_id message) of
              None \<Rightarrow> Inr () | Some e \<Rightarrow> Inl e)
         \<and> calls (snd (invoke re conn (SortMailingList d cf base r g) src message_id
                          message w)) =
             calls w @ [Move_message src (VStr dest') message_id message]
         \<and> filter (\<lambda>x. level x = INFO)
              (records (snd (invoke re conn (SortMailingList d cf base r g) src message_id
                               message w))) =
            filter (\<lambda>x. level x = INFO) (records w) @
              [\<lparr>logger = ''SortMailingList'', level = INFO, fmt = ''%s (%s) to %s'',
                args = [Val (VStr message_id), Val (msg_getitem message ''subject''),
                        Val (VStr dest')]\<rparr>])
   \<and> fst (Delete_init Map.empty Map.empty w) = Inr (Delete Map.empty Map.empty :: 'r action)
   \<and> calls (snd (invoke re conn (Delete Map.empty Map.empty) ''src'' ''id1'' message w)) =
       calls w @ [Delete_message ''src'' ''id1'' message]
   \<and> fst (Move_init [''dest-mailbox'' \<mapsto> VStr ''X''] cfg w) =
       Inr (Move [''dest-mailbox'' \<mapsto> VStr ''X''] cfg (VStr ''X'') :: 'r action)
   \<and> calls (snd (invoke re conn (Move [''dest-mailbox'' \<mapsto> VStr ''X''] cfg (VStr ''X''))
                   ''src'' ''id1'' message w)) =
       calls w @ [Move_message ''src'' (VStr ''X'') ''id1'' message]
   \<and> (\<exists>r1. fst (SortMailingList_init py_re
                   [''name'' \<mapsto> VStr ''sort-mailing-list'',
                    ''dest-mailbox-base'' \<mapsto> VStr ''lists-go-under-here'',
                    ''dest-mailbox-regex'' \<mapsto> VStr ''<(.*)>''] Map.empty w) =
            Inr (SortMailingList
                   [''name'' \<mapsto> VStr ''sort-mailing-list'',
                    ''dest-mailbox-base'' \<mapsto> VStr ''lists-go-under-here'',
                    ''dest-mailbox-regex'' \<mapsto> VStr ''<(.*)>''] Map.empty
                   (VStr ''lists-go-under-here'') r1 (VInt 0))
          \<and> calls (snd (invoke py_re conn
                    (SortMailingList
                       [''name'' \<mapsto> VStr ''sort-mailing-list'',
                        ''dest-mailbox-base'' \<mapsto> VStr ''lists-go-under-here'',
                        ''dest-mailbox-regex'' \<mapsto> VStr ''<(.*)>''] Map.empty
                       (VStr ''lists-go-under-here'') r1 (VInt 0))
                    ''src-mailbox'' ''id-here''
                    [''list-id'' \<mapsto> ''<sphinx-dev.googlegroups.com>''] w)) =
              calls w @
                [Move_message ''src-mailbox''
                   (VStr ''lists-go-under-here.sphinx-dev.googlegroups.com'') ''id-here''
                   [''list-id'' \<mapsto> ''<sphinx-dev.googlegroups.com>'']])"
proof (intro conjI impI)
  assume ok: "fst (invoke re conn a src message_id message w) = Inr ()"
  show "\<exists>c. calls (snd (invoke re conn a src message_id message w)) = calls w @ [c]
           \<and> (case a of
                Move d cf dest \<Rightarrow> c = Move_message src dest message_id message
              | SortMailingList d cf base r g \<Rightarrow>
                  (\<exists>dest. fst (get_dest_mailbox re base r g message_id message w) = Inr dest
                          \<and> c = Move_message src (VStr dest) message_id message)
              | Trash d cf dest \<Rightarrow> c = Move_message src dest message_id message
              | Delete d cf \<Rightarrow> c = Delete_message src message_id message)"
  proof (cases a)
    case (SortMailingList d cf base r g)
    with ok SortMailingList_invoke_cases [of re base r g message_id message w conn src]
    show ?thesis
      by auto
  qed (simp_all add: Move_invoke_def Delete_invoke_def call_def log_to_def Let_def)
  show "length (filter (\<lambda>x. level x = INFO)
                  (records (snd (invoke re conn a src message_id message w)))) =
          Suc (length (filter (\<lambda>x. level x = INFO) (records w)))"
  proof (cases a)
    case (SortMailingList d cf base r g)
    with ok SortMailingList_invoke_cases [of re base r g message_id message w conn src]
    show ?thesis
      by auto
  qed (simp_all add: Move_invoke_def Delete_invoke_def call_def log_to_def Let_def)
next
  assume res: "fst (get_dest_mailbox re base r g message_id message w) = Inr dest'"
  note t = SortMailingList_invoke_resolved [OF res, of conn src]
  from t show "fst (invoke re conn (SortMailingList d cf base r g) src message_id message w) =
           (case conn (Move_message src (VStr dest') message_id message) of
              None \<Rightarrow> Inr () | Some e \<Rightarrow> Inl e)"
    by simp
  from t show "calls (snd (invoke re conn (SortMailingList d cf base r g) src message_id
                          message w)) =
             calls w @ [Move_message src (VStr dest') message_id message]"
    by simp
  from t show "filter (\<lambda>x. level x = INFO)
              (records (snd (invoke re conn (SortMailingList d cf base r g) src message_id
                               message w))) =
            filter (\<lambda>x. level x = INFO) (records w) @
              [\<lparr>logger = ''SortMailingList'', level = INFO, fmt = ''%s (%s) to %s'',
                args = [Val (VStr message_id), Val (msg_getitem message ''subject''),
                        Val (VStr dest')]\<rparr>]"
    by simp
next
  let ?d = "[''name'' \<mapsto> VStr ''sort-mailing-list'',
             ''dest-mailbox-base'' \<mapsto> VStr ''lists-go-under-here'',
             ''dest-mailbox-regex'' \<mapsto> VStr ''<(.*)>'']"
  let ?msg = "[''list-id'' \<mapsto> ''<sphinx-dev.googlegroups.com>'']"
  let ?r1 = "\<lparr>c_rx = Seq (Seq (Seq Eps (Lit CHR ''<'')) (Group 1 (Seq Eps (Star Dot))))
                      (Lit CHR ''>''),
             c_groups = 1, c_pattern = ''<(.*)>''\<rparr>"
  have a: "fst (SortMailingList_init py_re ?d Map.empty w) =
             Inr (SortMailingList ?d Map.empty (VStr ''lists-go-under-here'') ?r1 (VInt 0))"
    by (simp add: init_defs py_re_eval)
  have s: "re_search py_re ?r1 (msg_get ?msg ''list-id'' []) =
             Some [(1, ''sphinx-dev.googlegroups.com'')]"
    by (simp add: py_re_eval)
  have b: "fst (get_dest_mailbox py_re (VStr ''lists-go-under-here'') ?r1 (VInt 0) ''id-here''
                  ?msg w) =
             Inr ''lists-go-under-here.sphinx-dev.googlegroups.com''"
    by (subst get_dest_mailbox_match [OF s])
       (simp add: match_groups_def tuple_index_def py_re_sel)
  have c: "calls (snd (invoke py_re conn
                    (SortMailingList ?d Map.empty (VStr ''lists-go-under-here'') ?r1 (VInt 0))
                    ''src-mailbox'' ''id-here'' ?msg w)) =
             calls w @
               [Move_message ''src-mailbox''
                  (VStr ''lists-go-under-here.sphinx-dev.googlegroups.com'') ''id-here'' ?msg]"
    using SortMailingList_invoke_resolved [OF b, of conn "''src-mailbox''"] by simp
  show "\<exists>r1. fst (SortMailingList_init py_re ?d Map.empty w) =
            Inr (SortMailingList ?d Map.empty (VStr ''lists-go-under-here'') r1 (VInt 0))
          \<and> calls (snd (invoke py_re conn
                    (SortMailingList ?d Map.empty (VStr ''lists-go-under-here'') r1 (VInt 0))
                    ''src-mailbox'' ''id-here'' ?msg w)) =
              calls w @
                [Move_message ''src-mailbox''
                   (VStr ''lists-go-under-here.sphinx-dev.googlegroups.com'') ''id-here'' ?msg]"
    using a c by (intro exI [of _ ?r1]) (simp del: invoke.simps)
qed (simp_all add: init_defs Move_invoke_def Delete_invoke_def call_def log_to_def
       dict_get_def)

theorem invoke_one_connection_call_witness:
  "calls (snd (invoke py_re Map.empty (Delete Map.empty Map.empty) ''src'' ''id1''
                 [''subject'' \<mapsto> ''hello''] \<lparr>calls = [], records = []\<rparr>)) =
     [Delete_message ''src'' ''id1'' [''subject'' \<mapsto> ''hello'']]
   \<and> length (filter (\<lambda>x. level x = INFO)
               (records (snd (invoke py_re Map.empty (Delete Map.empty Map.empty) ''src'' ''id1''
                               [''subject'' \<mapsto> ''hello''] \<lparr>calls = [], records = []\<rparr>)))) = 1
   \<and> calls (snd (invoke py_re Map.empty
                   (Move [''dest-mailbox'' \<mapsto> VStr ''X''] Map.empty (VStr ''X''))
                   ''src'' ''id1'' [''subject'' \<mapsto> ''hello'']
                   \<lparr>calls = [], records = []\<rparr>)) =
       [Move_message ''src'' (VStr ''X'') ''id1'' [''subject'' \<mapsto> ''hello'']]
   \<and> fst (invoke py_re Map.empty
            (SortMailingList
               [''name'' \<mapsto> VStr ''sort-mailing-list'',
                ''dest-mailbox-base'' \<mapsto> VStr ''lists-go-under-here'',
                ''dest-mailbox-regex'' \<mapsto> VStr ''<(.*)>''] Map.empty
               (VStr ''lists-go-under-here'')
               \<lparr>c_rx = Seq (Seq (Seq Eps (Lit CHR ''<'')) (Group 1 (Seq Eps (Star Dot))))
                          (Lit CHR ''>''),
                c_groups = 1, c_pattern = ''<(.*)>''\<rparr> (VInt 0))
            ''src-mailbox'' ''id-here''
            [''list-id'' \<mapsto> ''<sphinx-dev.googlegroups.com>'']
            \<lparr>calls = [], records = []\<rparr>) = Inr ()
   \<and> calls (snd (invoke py_re Map.empty
            (SortMailingList
               [''name'' \<mapsto> VStr ''sort-mailing-list'',
                ''dest-mailbox-base'' \<mapsto> VStr ''lists-go-under-here'',
                ''dest-mailbox-regex'' \<mapsto> VStr ''<(.*)>''] Map.empty
               (VStr ''lists-go-under-here'')
               \<lparr>c_rx = Seq (Seq (Seq Eps (Lit CHR ''<'')) (Group 1 (Seq Eps (Star Dot))))
                          (Lit CHR ''>''),
                c_groups = 1, c_pattern = ''<(.*)>''\<rparr> (VInt 0))
            ''src-mailbox'' ''id-here''
            [''list-id'' \<mapsto> ''<sphinx-dev.googlegroups.com>'']
            \<lparr>calls = [], records = []\<rparr>)) =
       [Move_message ''src-mailbox''
          (VStr ''lists-go-under-here.sphinx-dev.googlegroups.com'') ''id-here''
          [''list-id'' \<mapsto> ''<sphinx-dev.googlegroups.com>'']]
   \<and> filter (\<lambda>x. level x = INFO)
        (records (snd (invoke py_re Map.empty
            (SortMailingList
               [''name'' \<mapsto> VStr ''sort-mailing-list'',
                ''dest-mailbox-base'' \<mapsto> VStr ''lists-go-under-here'',
                ''dest-mailbox-regex'' \<mapsto> VStr ''<(.*)>''] Map.empty
               (VStr ''lists-go-under-here'')
               \<lparr>c_rx = Seq (Seq (Seq Eps (Lit CHR ''<'')) (Group 1 (Seq Eps (Star Dot))))
                          (Lit CHR ''>''),
                c_groups = 1, c_pattern = ''<(.*)>''\<rparr> (VInt 0))
            ''src-mailbox'' ''id-here''
            [''list-id'' \<mapsto> ''<sphinx-dev.googlegroups.com>'']
            \<lparr>calls = [], records = []\<rparr>))) =
       [\<lparr>logger = ''SortMailingList'', level = INFO, fmt = ''%s (%s) to %s'',
         args = [Val (VStr ''id-here''), Val VNone,
                 Val (VStr ''lists-go-under-here.sphinx-dev.googlegroups.com'')]\<rparr>]"
proof -
  let ?W = "\<lparr>calls = [], records = []\<rparr>"
  let ?msg = "[''subject'' \<mapsto> ''hello'']"
  let ?d = "[''name'' \<mapsto> VStr ''sort-mailing-list'',
             ''dest-mailbox-base'' \<mapsto> VStr ''lists-go-under-here'',
             ''dest-mailbox-regex'' \<mapsto> VStr ''<(.*)>'']"
  let ?lmsg = "[''list-id'' \<mapsto> ''<sphinx-dev.googlegroups.com>'']"
  let ?r1 = "\<lparr>c_rx = Seq (Seq (Seq Eps (Lit CHR ''<'')) (Group 1 (Seq Eps (Star Dot))))
                      (Lit CHR ''>''),
             c_groups = 1, c_pattern = ''<(.*)>''\<rparr>"
  have ok: "fst (invoke py_re Map.empty (Delete Map.empty Map.empty) ''src'' ''id1'' ?msg ?W) =
              Inr ()"
    by (simp add: Delete_invoke_def call_def Let_def)
  note t = invoke_one_connection_call
             [where re = py_re and conn = Map.empty and a = "Delete Map.empty Map.empty"
                and src = "''src''" and message_id = "''id1''" and message = ?msg and w = ?W
                and cfg = Map.empty and d = Map.empty and cf = Map.empty and dest = VNone
                and base = VNone and r = ?r1 and g = VNone and dest' = "[]"]
  have del: "calls (snd (invoke py_re Map.empty (Delete Map.empty Map.empty) ''src'' ''id1''
                 ?msg ?W)) = [Delete_message ''src'' ''id1'' ?msg]
     \<and> length (filter (\<lambda>x. level x = INFO)
               (records (snd (invoke py_re Map.empty (Delete Map.empty Map.empty) ''src'' ''id1''
                               ?msg ?W)))) = 1
     \<and> calls (snd (invoke py_re Map.empty
                   (Move [''dest-mailbox'' \<mapsto> VStr ''X''] Map.empty (VStr ''X''))
                   ''src'' ''id1'' ?msg ?W)) =
         [Move_message ''src'' (VStr ''X'') ''id1'' ?msg]"
    using ok t by (simp del: invoke.simps)
  have s: "re_search py_re ?r1 (msg_get ?lmsg ''list-id'' []) =
             Some [(1, ''sphinx-dev.googlegroups.com'')]"
    by (simp add: py_re_eval)
  have res: "fst (get_dest_mailbox py_re (VStr ''lists-go-under-here'') ?r1 (VInt 0)
                    ''id-here'' ?lmsg ?W) =
               Inr ''lists-go-under-here.sphinx-dev.googlegroups.com''"
    by (subst get_dest_mailbox_match [OF s])
       (simp add: match_groups_def tuple_index_def py_re_sel)
  note u = invoke_one_connection_call
             [where re = py_re and conn = Map.empty and a = "Delete Map.empty Map.empty"
                and src = "''src-mailbox''" and message_id = "''id-here''" and message = ?lmsg
                and w = ?W and cfg = Map.empty and d = ?d and cf = Map.empty and dest = VNone
                and base = "VStr ''lists-go-under-here''" and r = ?r1 and g = "VInt 0"
                and dest' = "''lists-go-under-here.sphinx-dev.googlegroups.com''"]
  have srt: "fst (invoke py_re Map.empty
                (SortMailingList ?d Map.empty (VStr ''lists-go-under-here'') ?r1 (VInt 0))
                ''src-mailbox'' ''id-here'' ?lmsg ?W) = Inr ()
     \<and> calls (snd (invoke py_re Map.empty
                (SortMailingList ?d Map.empty (VStr ''lists-go-under-here'') ?r1 (VInt 0))
                ''src-mailbox'' ''id-here'' ?lmsg ?W)) =
         [Move_message ''src-mailbox''
            (VStr ''lists-go-under-here.sphinx-dev.googlegroups.com'') ''id-here'' ?lmsg]
     \<and> filter (\<lambda>x. level x = INFO)
          (records (snd (invoke py_re Map.empty
                (SortMailingList ?d Map.empty (VStr ''lists-go-under-here'') ?r1 (VInt 0))
                ''src-mailbox'' ''id-here'' ?lmsg ?W))) =
         [\<lparr>logger = ''SortMailingList'', level = INFO, fmt = ''%s (%s) to %s'',
           args = [Val (VStr ''id-here''), Val VNone,
                   Val (VStr ''lists-go-under-here.sphinx-dev.googlegroups.com'')]\<rparr>]"
    using res u by (simp add: msg_getitem_def del: invoke.simps)
  from del srt show ?thesis
    by (simp del: invoke.simps)
qed

section \<open>The classes of the errors\<close>

text \<open>
  Claim C6 says that every configuration error (unrecognized action name, missing base
  mailbox, missing trash mailbox, pattern with no or ambiguous capture groups) can be
  told from the per-message destination-resolution error by its type. The code raises
  \<^verbatim>\<open>ValueError\<close> in all six places: the error of \<^verbatim>\<open>factory({}, {})\<close> and the error of
  invoking a \<^verbatim>\<open>SortMailingList\<close> built by the factory on a message with no \<^verbatim>\<open>list-id\<close>
  header have the same class.
\<close>

theorem error_classes_counterexample:
  "fst (factory py_re Map.empty Map.empty \<lparr>calls = [], records = []\<rparr>) =
     Inl (ValueError, ''unrecognized rule action {!r}'', [Dict Map.empty])
   \<and> fst (factory py_re
            [''name'' \<mapsto> VStr ''sort-mailing-list'', ''dest-mailbox-base'' \<mapsto> VStr ''lists'']
            Map.empty \<lparr>calls = [], records = []\<rparr>) =
       Inr (SortMailingList
              [''name'' \<mapsto> VStr ''sort-mailing-list'', ''dest-mailbox-base'' \<mapsto> VStr ''lists'']
              Map.empty (VStr ''lists'')
              \<lparr>c_rx = Seq (Seq (Seq (Seq (Seq Eps (Opt (Lit CHR ''<'')))
                        (Group 1 (Seq Eps (Seq (CSet True ''.'') (Star (CSet True ''.''))))))
                        (Lit CHR ''.'')) (Star Dot)) (Opt (Lit CHR ''>'')),
               c_groups = 1, c_pattern = default_regex\<rparr>
              (VInt 0))
   \<and> fst (invoke py_re Map.empty
            (SortMailingList
               [''name'' \<mapsto> VStr ''sort-mailing-list'', ''dest-mailbox-base'' \<mapsto> VStr ''lists'']
               Map.empty (VStr ''lists'')
               \<lparr>c_rx = Seq (Seq (Seq (Seq (Seq Eps (Opt (Lit CHR ''<'')))
                         (Group 1 (Seq Eps (Seq (CSet True ''.'') (Star (CSet True ''.''))))))
                         (Lit CHR ''.'')) (Star Dot)) (Opt (Lit CHR ''>'')),
                c_groups = 1, c_pattern = default_regex\<rparr>
               (VInt 0))
            ''src'' ''id1'' Map.empty \<lparr>calls = [], records = []\<rparr>) =
       Inl (ValueError,
            ''Could not determine destination mailbox from list-id {!r} with regex {!r}'',
            [Val (VStr []), Compiled default_regex])
   \<and> exc_class (ValueError, ''unrecognized rule action {!r}'', [Dict Map.empty]) =
       exc_class (ValueError,
            ''Could not determine destination mailbox from list-id {!r} with regex {!r}'',
            [Val (VStr []), Compiled default_regex])"
  by (simp add: factory_def init_defs py_re_eval SortMailingList_invoke_def
        get_dest_mailbox_def exc_class_def)

text \<open>
  Claim C6 as amended. The configuration errors raised by the action code and the
  per-message destination-resolution error raised by \<^verbatim>\<open>SortMailingList.invoke\<close> all have
  the same type, \<^verbatim>\<open>ValueError\<close>; they differ by their message only. Every error that
  \<^verbatim>\<open>factory\<close> returns is either the error of \<^verbatim>\<open>re.compile\<close> on the pattern, or a
  \<^verbatim>\<open>ValueError\<close> with one of five messages, none of which is the message of the
  resolution error; and the resolution error is a \<^verbatim>\<open>ValueError\<close> with its own message.
\<close>

theorem error_classes_same_type:
  fixes re :: "('r, 'm) re_module"
  shows
  \<open>(fst (factory re action_data cfg w) = Inl e \<longrightarrow>
      compile_value re
          (dict_get_default action_data ''dest-mailbox-regex'' (VStr default_regex)) = Inl e
      \<or> (exc_class e = ValueError
          \<and> exc_message e \<in> set
               [''unrecognized rule action {!r}'',
                ''No dest-mailbox-base given for action {}'',
                ''Regex {!r} has no group to select the mailbox name portion.'',
                ''Regex {!r} has multiple groups and the action data does not specify the dest-mailbox-regex-group to use.'',
                ''no "trash-mailbox" set in config'']
          \<and> exc_message e \<noteq>
               ''Could not determine destination mailbox from list-id {!r} with regex {!r}''))
   \<and> (re_search re r (msg_get message ''list-id'' []) = None \<longrightarrow>
        (\<exists>e'. fst (invoke re conn (SortMailingList d c base r g) src message_id message w') =
                 Inl e'
              \<and> exc_class e' = ValueError
              \<and> exc_message e' =
                  ''Could not determine destination mailbox from list-id {!r} with regex {!r}''))\<close>
proof (intro conjI impI)
  assume "fst (factory re action_data cfg w) = Inl e"
  then show \<open>compile_value re
          (dict_get_default action_data ''dest-mailbox-regex'' (VStr default_regex)) = Inl e
      \<or> (exc_class e = ValueError
          \<and> exc_message e \<in> set
               [''unrecognized rule action {!r}'',
                ''No dest-mailbox-base given for action {}'',
                ''Regex {!r} has no group to select the mailbox name portion.'',
                ''Regex {!r} has multiple groups and the action data does not specify the dest-mailbox-regex-group to use.'',
                ''no "trash-mailbox" set in config'']
          \<and> exc_message e \<noteq>
               ''Could not determine destination mailbox from list-id {!r} with regex {!r}'')\<close>
    by (auto simp: factory_def init_defs exc_class_def exc_message_def
             split: if_splits sum.splits)
next
  assume "re_search re r (msg_get message ''list-id'' []) = None"
  then show "\<exists>e'. fst (invoke re conn (SortMailingList d c base r g) src message_id message w') =
                 Inl e'
              \<and> exc_class e' = ValueError
              \<and> exc_message e' =
                  ''Could not determine destination mailbox from list-id {!r} with regex {!r}''"
    by (simp add: SortMailingList_invoke_def get_dest_mailbox_no_match exc_class_def
          exc_message_def)
qed

theorem error_classes_same_type_witness:
  "exc_class (ValueError, ''unrecognized rule action {!r}'', [Dict Map.empty]) = ValueError
   \<and> exc_message (ValueError, ''unrecognized rule action {!r}'', [Dict Map.empty]) \<noteq>
       ''Could not determine destination mailbox from list-id {!r} with regex {!r}''
   \<and> (\<exists>e'. fst (invoke py_re Map.empty
                  (SortMailingList Map.empty Map.empty (VStr ''lists'')
                     \<lparr>c_rx = Seq (Seq (Seq Eps (Lit CHR ''<'')) (Group 1 (Seq Eps (Star Dot))))
                                (Lit CHR ''>''),
                       c_groups = 1, c_pattern = ''<(.*)>''\<rparr> (VInt 0))
                  ''src'' ''id1'' Map.empty \<lparr>calls = [], records = []\<rparr>) = Inl e'
           \<and> exc_class e' = ValueError)"
proof -
  let ?W = "\<lparr>calls = [], records = []\<rparr>"
  let ?e = "(ValueError, ''unrecognized rule action {!r}'', [Dict Map.empty])"
  let ?r = "\<lparr>c_rx = Seq (Seq (Seq Eps (Lit CHR ''<'')) (Group 1 (Seq Eps (Star Dot))))
                   (Lit CHR ''>''),
            c_groups = 1, c_pattern = ''<(.*)>''\<rparr>"
  have h1: "fst (factory py_re Map.empty Map.empty ?W) = Inl ?e"
    by (simp add: factory_def dict_get_def)
  have h2: "compile_value py_re (dict_get_default Map.empty ''dest-mailbox-regex''
              (VStr default_regex)) \<noteq> Inl ?e"
    by (simp add: py_re_eval)
  have h3: "re_search py_re ?r (msg_get Map.empty ''list-id'' []) = None"
    by (simp add: py_re_sel msg_get_def) code_simp
  note t = error_classes_same_type
             [where re = py_re and action_data = Map.empty and cfg = Map.empty and w = ?W
                and e = ?e and r = ?r and message = Map.empty and conn = Map.empty
                and d = Map.empty and c = Map.empty and base = "VStr ''lists''"
                and g = "VInt 0" and src = "''src''" and message_id = "''id1''" and w' = ?W]
  from t h1 h2 have a: "exc_class ?e = ValueError
      \<and> exc_message ?e \<noteq>
          ''Could not determine destination mailbox from list-id {!r} with regex {!r}''"
    by blast
  from t h3 have b: "\<exists>e'. fst (invoke py_re Map.empty
                  (SortMailingList Map.empty Map.empty (VStr ''lists'') ?r (VInt 0))
                  ''src'' ''id1'' Map.empty ?W) = Inl e' \<and> exc_class e' = ValueError"
    by blast
  from a b show ?thesis
    by blast
qed

end
